theory Spec2Isabelle
  imports Complex_Main "HOL-Library.Word"
begin

unbundle bit_operations_syntax

section \<open>Scalars and vectors\<close>

text \<open>
  The kinematic character controller of \<^verbatim>\<open>libraries/physics/src/CharacterController.cpp\<close>.
  A \<^verbatim>\<open>btScalar\<close> (a C \<^verbatim>\<open>float\<close>) is modelled as a real number: comparisons, sums and
  products are the exact ones, so rounding, infinities and NaN are outside the model.
  \<^verbatim>\<open>btVector3\<close> and \<^verbatim>\<open>glm::vec3\<close> are the same triple of scalars
  (\<^verbatim>\<open>glmToBullet\<close> and \<^verbatim>\<open>bulletToGLM\<close> copy the components).
\<close>

datatype vec3 = btVector3 (getX: real) (getY: real) (getZ: real)

instantiation vec3 :: real_vector
begin

definition zero_vec3 :: vec3 where
  "zero_vec3 = btVector3 0 0 0"

definition plus_vec3 :: "vec3 \<Rightarrow> vec3 \<Rightarrow> vec3" where
  "plus_vec3 a b = btVector3 (getX a + getX b) (getY a + getY b) (getZ a + getZ b)"

definition minus_vec3 :: "vec3 \<Rightarrow> vec3 \<Rightarrow> vec3" where
  "minus_vec3 a b = btVector3 (getX a - getX b) (getY a - getY b) (getZ a - getZ b)"

definition uminus_vec3 :: "vec3 \<Rightarrow> vec3" where
  "uminus_vec3 a = btVector3 (- getX a) (- getY a) (- getZ a)"

definition scaleR_vec3 :: "real \<Rightarrow> vec3 \<Rightarrow> vec3" where
  "scaleR_vec3 k a = btVector3 (k * getX a) (k * getY a) (k * getZ a)"

instance
  by standard
    (simp_all add: zero_vec3_def plus_vec3_def minus_vec3_def uminus_vec3_def
      scaleR_vec3_def algebra_simps)

end

text \<open>
  \<^verbatim>\<open>btVector3::dot\<close>, \<^verbatim>\<open>length2\<close>, \<^verbatim>\<open>length\<close> and \<^verbatim>\<open>angle\<close> of the engine's vector
  library; \<^verbatim>\<open>angle\<close> clamps the cosine to \<open>[-1, 1]\<close> before taking the arc cosine.
\<close>

definition dot :: "vec3 \<Rightarrow> vec3 \<Rightarrow> real" where
  "dot a b = getX a * getX b + getY a * getY b + getZ a * getZ b"

definition length2 :: "vec3 \<Rightarrow> real" where
  "length2 a = dot a a"

definition vlength :: "vec3 \<Rightarrow> real" where
  "vlength a = sqrt (length2 a)"

definition angle :: "vec3 \<Rightarrow> vec3 \<Rightarrow> real" where
  "angle a b = arccos (max (- 1) (min 1 (dot a b / sqrt (length2 a * length2 b))))"

text \<open>A 3x3 basis (the rows of a \<^verbatim>\<open>btMatrix3x3\<close>) applied to a vector.\<close>

datatype mat3 = btMatrix3x3 (row0: vec3) (row1: vec3) (row2: vec3)

definition mat_mul :: "mat3 \<Rightarrow> vec3 \<Rightarrow> vec3" where
  "mat_mul m v = btVector3 (dot (row0 m) v) (dot (row1 m) v) (dot (row2 m) v)"

datatype quat = btQuaternion real real real real

section \<open>Errors\<close>

text \<open>
  The two ways the modelled code can stop: an assertion of the vector library
  (\<^verbatim>\<open>operator/=\<close> asserts a non-zero divisor) and the dereference of a null
  \<^verbatim>\<open>_ghostObject\<close> or \<^verbatim>\<open>_convexShape\<close>.
\<close>

datatype error = AssertionFailed | NullDereference

definition btVector3_div :: "vec3 \<Rightarrow> real \<Rightarrow> error + vec3" where
  "btVector3_div v s = (if s = 0 then Inl AssertionFailed else Inr ((1 / s) *\<^sub>R v))"

text \<open>\<^verbatim>\<open>FLT_EPSILON\<close> of \<^verbatim>\<open><cfloat>\<close>: the IEEE single-precision machine epsilon.\<close>

definition FLT_EPSILON :: real where
  "FLT_EPSILON = 1 / 2 ^ 23"

definition getNormalizedVector :: "vec3 \<Rightarrow> error + vec3" where
  "getNormalizedVector v =
     (let vLength = vlength v in
      if vLength < FLT_EPSILON then Inr (btVector3 0 0 0)
      else btVector3_div v vLength)"

section \<open>Controller state\<close>

definition PENDING_FLAG_ADD_TO_SIMULATION :: "32 word" where
  "PENDING_FLAG_ADD_TO_SIMULATION = push_bit 0 1"

definition PENDING_FLAG_REMOVE_FROM_SIMULATION :: "32 word" where
  "PENDING_FLAG_REMOVE_FROM_SIMULATION = push_bit 1 1"

definition PENDING_FLAG_UPDATE_SHAPE :: "32 word" where
  "PENDING_FLAG_UPDATE_SHAPE = push_bit 2 1"

definition PENDING_FLAG_JUMP :: "32 word" where
  "PENDING_FLAG_JUMP = push_bit 3 1"

text \<open>
  The ghost object: its address (what the sweep callbacks compare with \<^verbatim>\<open>_me\<close>) and
  its world transform. The convex shape: a capsule with a collision margin.
\<close>

record ghost_object =
  ghostPtr :: nat
  origin :: vec3
  rotation :: quat

record convex_shape =
  capsuleRadius :: real
  capsuleHeight :: real
  margin :: real

record character_controller =
  enabled :: bool
  ghostObject :: "ghost_object option"
  convexShape :: "convex_shape option"
  dynamicsWorld :: "nat option"
  addedMargin :: real
  currentPosition :: vec3
  targetPosition :: vec3
  currentUp :: vec3
  walkDirection :: vec3
  normalizedDirection :: vec3
  floorNormal :: vec3
  lastPosition :: vec3
  shapeLocalOffset :: vec3
  velocityTimeInterval :: real
  verticalVelocity :: real
  verticalOffset :: real
  gravity :: real
  maxFallSpeed :: real
  jumpSpeed :: real
  maxSlopeCosine :: real
  lastStepUp :: real
  stepUpHeight :: real
  stepDownHeight :: real
  radius :: real
  halfHeight :: real
  stepDt :: real
  isOnGround :: bool
  isJumping :: bool
  isHovering :: bool
  touchingContact :: bool
  jumpToHoverStart :: "64 word"
  pendingFlags :: "32 word"

section \<open>Walk velocity, jump and enabling\<close>

definition setVelocityForTimeInterval ::
  "vec3 \<Rightarrow> real \<Rightarrow> character_controller \<Rightarrow> error + character_controller" where
  "setVelocityForTimeInterval velocity timeInterval s =
     (let s1 = s\<lparr>walkDirection := velocity\<rparr> in
      case getNormalizedVector (walkDirection s1) of
        Inl e \<Rightarrow> Inl e
      | Inr n \<Rightarrow>
          Inr (s1\<lparr>normalizedDirection := n,
                  velocityTimeInterval := velocityTimeInterval s1 + timeInterval\<rparr>))"

text \<open>
  Modelled from the spec: \<^verbatim>\<open>USECS_PER_SECOND\<close> is declared outside the given sources;
  the spec gives the jump-to-hover period as one second, and the timer counts microseconds.
\<close>

definition USECS_PER_SECOND :: "64 word" where
  "USECS_PER_SECOND = 1000000"

text \<open>
  \<^verbatim>\<open>jump()\<close>. The argument \<open>now\<close> is what \<^verbatim>\<open>usecTimestampNow()\<close> returns at this call
  (each path reads the clock at most once). The subtraction is the unsigned 64-bit one.
\<close>

definition jump :: "64 word \<Rightarrow> character_controller \<Rightarrow> character_controller" where
  "jump now s =
     (let s1 = s\<lparr>pendingFlags := pendingFlags s OR PENDING_FLAG_JUMP\<rparr> in
      if \<not> isHovering s1 then
        if \<not> isJumping s1 then s1\<lparr>jumpToHoverStart := now\<rparr>
        else
          (let JUMP_TO_HOVER_PERIOD = USECS_PER_SECOND in
           if now - jumpToHoverStart s1 < JUMP_TO_HOVER_PERIOD
           then s1\<lparr>isHovering := True\<rparr> else s1)
      else s1)"

definition canJump :: "character_controller \<Rightarrow> bool" where
  "canJump s = isOnGround s"

definition needsAddition :: "character_controller \<Rightarrow> bool" where
  "needsAddition s = (pendingFlags s AND PENDING_FLAG_ADD_TO_SIMULATION \<noteq> 0)"

definition needsRemoval :: "character_controller \<Rightarrow> bool" where
  "needsRemoval s = (pendingFlags s AND PENDING_FLAG_REMOVE_FROM_SIMULATION \<noteq> 0)"

definition setEnabled :: "bool \<Rightarrow> character_controller \<Rightarrow> character_controller" where
  "setEnabled en s =
     (if en \<noteq> enabled s then
        (if en then
           s\<lparr>pendingFlags := pendingFlags s OR PENDING_FLAG_ADD_TO_SIMULATION,
             isHovering := True\<rparr>
         else
           (let s1 = (if dynamicsWorld s \<noteq> None
                      then s\<lparr>pendingFlags :=
                              pendingFlags s OR PENDING_FLAG_REMOVE_FROM_SIMULATION\<rparr>
                      else s)
            in s1\<lparr>pendingFlags := pendingFlags s1 AND NOT PENDING_FLAG_ADD_TO_SIMULATION,
                  isOnGround := False\<rparr>))
        \<lparr>enabled := en\<rparr>
      else s)"

section \<open>The collision world and the query callbacks\<close>

text \<open>
  What the collision engine hands to a callback: the object hit (its address, whether it
  has contact response, the basis of its world transform), the hit normal and point, and
  the hit fraction along the ray or sweep.
\<close>

record collision_object =
  objectPtr :: nat
  hasContactResponse :: bool
  worldBasis :: mat3

record local_ray_result =
  m_collisionObject :: collision_object
  m_rayNormalLocal :: vec3
  m_rayFraction :: real

record local_convex_result =
  m_hitCollisionObject :: collision_object
  m_hitNormalLocal :: vec3
  m_hitPointLocal :: vec3
  m_hitFraction :: real

text \<open>
  The members of the engine's closest-hit callbacks (\<^verbatim>\<open>ClosestRayResultCallback\<close> and
  \<^verbatim>\<open>ClosestConvexResultCallback\<close>): the closest fraction so far, the object recorded
  (null until a hit is recorded), and the recorded normal and point.
\<close>

record closest_result_callback =
  m_closestHitFraction :: real
  m_hitObject :: "nat option"
  m_hitNormalWorld :: vec3
  m_hitPointWorld :: vec3

definition new_callback :: closest_result_callback where
  "new_callback =
     \<lparr>m_closestHitFraction = 1, m_hitObject = None,
      m_hitNormalWorld = btVector3 0 0 0, m_hitPointWorld = btVector3 0 0 0\<rparr>"

definition hasHit :: "closest_result_callback \<Rightarrow> bool" where
  "hasHit cb = (m_hitObject cb \<noteq> None)"

definition setInterpolate3 :: "vec3 \<Rightarrow> vec3 \<Rightarrow> real \<Rightarrow> vec3" where
  "setInterpolate3 v0 v1 rt = (1 - rt) *\<^sub>R v0 + rt *\<^sub>R v1"

text \<open>
  The hit normal in world space, as each convex callback computes it: the local normal
  itself when the engine says it is in world space, else rotated by the object's basis.
\<close>

definition worldNormal :: "local_convex_result \<Rightarrow> bool \<Rightarrow> vec3" where
  "worldNormal convexResult normalInWorldSpace =
     (if normalInWorldSpace then m_hitNormalLocal convexResult
      else mat_mul (worldBasis (m_hitCollisionObject convexResult))
             (m_hitNormalLocal convexResult))"

text \<open>
  Modelled from the spec: the base-class \<^verbatim>\<open>addSingleResult\<close> of the engine's closest-hit
  callbacks belongs to the physics engine, outside the given sources. Following the
  query interface of the spec (a query yields the hit's fraction, normal, point and
  object), it records the offered contact as the closest hit and returns its fraction.
\<close>

definition ClosestRayResultCallback_addSingleResult ::
  "vec3 \<Rightarrow> vec3 \<Rightarrow> closest_result_callback \<Rightarrow> local_ray_result \<Rightarrow> bool
     \<Rightarrow> closest_result_callback \<times> real" where
  "ClosestRayResultCallback_addSingleResult rayFrom rayTo cb rayResult normalInWorldSpace =
     (cb\<lparr>m_closestHitFraction := m_rayFraction rayResult,
         m_hitObject := Some (objectPtr (m_collisionObject rayResult)),
         m_hitNormalWorld :=
           (if normalInWorldSpace then m_rayNormalLocal rayResult
            else mat_mul (worldBasis (m_collisionObject rayResult))
                   (m_rayNormalLocal rayResult)),
         m_hitPointWorld := setInterpolate3 rayFrom rayTo (m_rayFraction rayResult)\<rparr>,
      m_rayFraction rayResult)"

definition ClosestConvexResultCallback_addSingleResult ::
  "closest_result_callback \<Rightarrow> local_convex_result \<Rightarrow> bool
     \<Rightarrow> closest_result_callback \<times> real" where
  "ClosestConvexResultCallback_addSingleResult cb convexResult normalInWorldSpace =
     (cb\<lparr>m_closestHitFraction := m_hitFraction convexResult,
         m_hitObject := Some (objectPtr (m_hitCollisionObject convexResult)),
         m_hitNormalWorld := worldNormal convexResult normalInWorldSpace,
         m_hitPointWorld := m_hitPointLocal convexResult\<rparr>,
      m_hitFraction convexResult)"

text \<open>\<^verbatim>\<open>btKinematicClosestNotMeRayResultCallback::addSingleResult\<close>.\<close>

definition NotMeRay_addSingleResult ::
  "nat \<Rightarrow> closest_result_callback \<Rightarrow> local_ray_result \<Rightarrow> bool
     \<Rightarrow> closest_result_callback \<times> real" where
  "NotMeRay_addSingleResult me cb rayResult normalInWorldSpace =
     (if objectPtr (m_collisionObject rayResult) = me then (cb, 1)
      else ClosestRayResultCallback_addSingleResult (btVector3 0 0 0) (btVector3 0 0 0)
             cb rayResult normalInWorldSpace)"

text \<open>\<^verbatim>\<open>btKinematicClosestNotMeConvexResultCallback::addSingleResult\<close>.\<close>

definition NotMeConvex_addSingleResult ::
  "nat \<Rightarrow> vec3 \<Rightarrow> real \<Rightarrow> closest_result_callback \<Rightarrow> local_convex_result \<Rightarrow> bool
     \<Rightarrow> closest_result_callback \<times> real" where
  "NotMeConvex_addSingleResult me up minSlopeDot cb convexResult normalInWorldSpace =
     (if objectPtr (m_hitCollisionObject convexResult) = me then (cb, 1)
      else if \<not> hasContactResponse (m_hitCollisionObject convexResult) then (cb, 1)
      else
        (let hitNormalWorld =
               worldNormal convexResult normalInWorldSpace;
             dotUp = dot up hitNormalWorld
         in if dotUp < minSlopeDot then (cb, 1)
            else ClosestConvexResultCallback_addSingleResult cb convexResult
                   normalInWorldSpace))"

text \<open>\<^verbatim>\<open>StepDownConvexResultCallback::addSingleResult\<close>.\<close>

definition StepDown_addSingleResult ::
  "nat \<Rightarrow> vec3 \<Rightarrow> vec3 \<Rightarrow> vec3 \<Rightarrow> vec3 \<Rightarrow> real \<Rightarrow> real \<Rightarrow> real
     \<Rightarrow> closest_result_callback \<Rightarrow> local_convex_result \<Rightarrow> bool
     \<Rightarrow> closest_result_callback \<times> real" where
  "StepDown_addSingleResult me up start step pushDirection minSlopeDot rad halfH
       cb convexResult normalInWorldSpace =
     (if objectPtr (m_hitCollisionObject convexResult) = me then (cb, 1)
      else if \<not> hasContactResponse (m_hitCollisionObject convexResult) then (cb, 1)
      else
        (let hitNormalWorld =
               worldNormal convexResult normalInWorldSpace;
             dotUp = dot up hitNormalWorld
         in if dotUp < minSlopeDot then
              (if dot hitNormalWorld pushDirection > 0 then (cb, 1)
               else
                 (let fractionalStep = m_hitFraction convexResult *\<^sub>R step;
                      localHit = m_hitPointLocal convexResult - start + fractionalStep;
                      hitAngle = angle localHit (- up);
                      side = btVector3 rad
                               (- (halfH - vlength step + dot fractionalStep up)) 0;
                      maxAngle = angle side (- up)
                  in if hitAngle > maxAngle then (cb, 1)
                     else ClosestConvexResultCallback_addSingleResult cb convexResult
                            normalInWorldSpace))
            else ClosestConvexResultCallback_addSingleResult cb convexResult
                   normalInWorldSpace))"

text \<open>
  The contact manifolds of the pairs overlapping the ghost: a contact point has a signed
  distance (negative when penetrating), a normal on B and a position on each body; a
  manifold knows its first body; a pair has two client objects (possibly null) and, when
  it has a collision algorithm, that algorithm's manifolds.
\<close>

record manifold_point =
  m_distance :: real
  m_normalWorldOnB :: vec3
  m_positionWorldOnA :: vec3
  m_positionWorldOnB :: vec3

record persistent_manifold =
  body0 :: nat
  contactPoints :: "manifold_point list"

record broadphase_pair =
  clientObject0 :: "collision_object option"
  clientObject1 :: "collision_object option"
  algorithmManifolds :: "persistent_manifold list option"

text \<open>
  Modelled from the spec: the engine's ray cast and convex sweep are outside the given
  sources. A world answers a query with the contacts its narrow phase finds along the ray
  or sweep, in the order it finds them (each with the engine's \<open>normalInWorldSpace\<close> flag);
  the engine offers a contact to the callback only when its fraction does not exceed the
  callback's closest fraction so far, so that the callback ends with the earliest contact
  it accepted. The collision filter group and mask of the ghost's broadphase handle are
  part of what the world answers. \<open>overlappingPairs\<close> is the ghost's pair cache after the
  broadphase has been refreshed for the ghost's transform and the pairs dispatched.
\<close>

record collision_world =
  rayContacts :: "vec3 \<Rightarrow> vec3 \<Rightarrow> (local_ray_result \<times> bool) list"
  sweepContacts :: "convex_shape \<Rightarrow> vec3 \<Rightarrow> vec3 \<Rightarrow> (local_convex_result \<times> bool) list"
  overlappingPairs :: "convex_shape \<Rightarrow> ghost_object \<Rightarrow> broadphase_pair list"

fun rayTest ::
  "(closest_result_callback \<Rightarrow> local_ray_result \<Rightarrow> bool \<Rightarrow> closest_result_callback \<times> real)
     \<Rightarrow> (local_ray_result \<times> bool) list \<Rightarrow> closest_result_callback
     \<Rightarrow> closest_result_callback" where
  "rayTest addSingleResult [] cb = cb"
| "rayTest addSingleResult ((r, normalInWorldSpace) # rest) cb =
     rayTest addSingleResult rest
       (if m_rayFraction r \<le> m_closestHitFraction cb
        then fst (addSingleResult cb r normalInWorldSpace) else cb)"

fun convexSweepTest ::
  "(closest_result_callback \<Rightarrow> local_convex_result \<Rightarrow> bool
      \<Rightarrow> closest_result_callback \<times> real)
     \<Rightarrow> (local_convex_result \<times> bool) list \<Rightarrow> closest_result_callback
     \<Rightarrow> closest_result_callback" where
  "convexSweepTest addSingleResult [] cb = cb"
| "convexSweepTest addSingleResult ((r, normalInWorldSpace) # rest) cb =
     convexSweepTest addSingleResult rest
       (if m_hitFraction r \<le> m_closestHitFraction cb
        then fst (addSingleResult cb r normalInWorldSpace) else cb)"

section \<open>Scan down and step up\<close>

text \<open>The callback of \<^verbatim>\<open>scanDown\<close> after its ray test, for the ghost \<open>g\<close>.\<close>

definition scanDown_callback ::
  "collision_world \<Rightarrow> ghost_object \<Rightarrow> character_controller \<Rightarrow> closest_result_callback" where
  "scanDown_callback world g s =
     (let start = currentPosition s;
          MAX_SCAN_HEIGHT = 20 + halfHeight s + radius s;
          end = start - MAX_SCAN_HEIGHT *\<^sub>R currentUp s
      in rayTest (NotMeRay_addSingleResult (ghostPtr g)) (rayContacts world start end)
           new_callback)"

definition scanDown ::
  "collision_world \<Rightarrow> character_controller \<Rightarrow> error + character_controller" where
  "scanDown world s =
     (case ghostObject s of
        None \<Rightarrow> Inl NullDereference
      | Some g \<Rightarrow>
          (let MAX_SCAN_HEIGHT = 20 + halfHeight s + radius s;
               MIN_HOVER_HEIGHT = 3 + halfHeight s + radius s;
               callback = scanDown_callback world g s
           in if \<not> hasHit callback then Inr (s\<lparr>isHovering := True\<rparr>)
              else if isHovering s \<and>
                      m_closestHitFraction callback * MAX_SCAN_HEIGHT < MIN_HOVER_HEIGHT
              then Inr (s\<lparr>isHovering := False\<rparr>)
              else Inr s))"

text \<open>The callback of \<^verbatim>\<open>stepUp\<close> after its upward sweep.\<close>

definition stepUp_callback ::
  "collision_world \<Rightarrow> ghost_object \<Rightarrow> convex_shape \<Rightarrow> character_controller
     \<Rightarrow> closest_result_callback" where
  "stepUp_callback world g sh s =
     (let start = currentPosition s + (margin sh + addedMargin s) *\<^sub>R currentUp s;
          end = currentPosition s + stepUpHeight s *\<^sub>R currentUp s;
          sweepDirNegative = - currentUp s
      in convexSweepTest (NotMeConvex_addSingleResult (ghostPtr g) sweepDirNegative (7071 / 10000))
           (sweepContacts world sh start end) new_callback)"

definition stepUp ::
  "collision_world \<Rightarrow> character_controller \<Rightarrow> error + character_controller" where
  "stepUp world s =
     (case convexShape s of
        None \<Rightarrow> Inl NullDereference
      | Some sh \<Rightarrow>
     (case ghostObject s of
        None \<Rightarrow> Inl NullDereference
      | Some g \<Rightarrow>
          (let s1 = s\<lparr>targetPosition := currentPosition s + stepUpHeight s *\<^sub>R currentUp s\<rparr>;
               callback = stepUp_callback world g sh s
           in if hasHit callback then
                (let s2 = s1\<lparr>verticalVelocity := 0, verticalOffset := 0\<rparr>
                 in if dot (m_hitNormalWorld callback) (currentUp s2) > 0 then
                      Inr (s2\<lparr>lastStepUp := stepUpHeight s2 * m_closestHitFraction callback,
                              currentPosition :=
                                setInterpolate3 (currentPosition s2) (targetPosition s2)
                                  (m_closestHitFraction callback)\<rparr>)
                    else
                      Inr (s2\<lparr>lastStepUp := stepUpHeight s2,
                              currentPosition := targetPosition s2\<rparr>))
              else
                Inr (s1\<lparr>currentPosition := targetPosition s1,
                        lastStepUp := stepUpHeight s1\<rparr>))))"

text \<open>
  The slope test of \<^verbatim>\<open>btKinematicClosestNotMeConvexResultCallback\<close> on a contact, and a
  world whose sweeps answer only with the contacts that pass it.
\<close>

definition passesSlope :: "vec3 \<Rightarrow> real \<Rightarrow> local_convex_result \<times> bool \<Rightarrow> bool" where
  "passesSlope up minSlopeDot c = (\<not> dot up (worldNormal (fst c) (snd c)) < minSlopeDot)"

definition slopeFiltered :: "vec3 \<Rightarrow> real \<Rightarrow> collision_world \<Rightarrow> collision_world" where
  "slopeFiltered up minSlopeDot world =
     world\<lparr>sweepContacts :=
             (\<lambda>sh from to. filter (passesSlope up minSlopeDot) (sweepContacts world sh from to))\<rparr>"


section \<open>Step forward\<close>

text \<open>
  One sweep of the loop of \<^verbatim>\<open>stepForward\<close>, from \<open>currentPosition\<close> to
  \<open>targetPosition\<close>, with the shape \<open>sh\<close> (its margin already enlarged).
\<close>

definition stepForward_callback ::
  "collision_world \<Rightarrow> ghost_object \<Rightarrow> convex_shape \<Rightarrow> character_controller
     \<Rightarrow> closest_result_callback" where
  "stepForward_callback world g sh s =
     (let sweepDirNegative = currentPosition s - targetPosition s
      in convexSweepTest (NotMeConvex_addSingleResult (ghostPtr g) sweepDirNegative 0)
           (sweepContacts world sh (currentPosition s) (targetPosition s)) new_callback)"

text \<open>
  What the loop body does when the sweep reports a hit: the new value of its local
  \<open>step\<close>, and the state with the new target.
\<close>

definition stepForward_step :: "closest_result_callback \<Rightarrow> character_controller \<Rightarrow> vec3" where
  "stepForward_step callback s =
     (let step = targetPosition s - currentPosition s;
          stepDotNormal = dot step (m_hitNormalWorld callback)
      in step + (stepDotNormal * (1 - m_closestHitFraction callback))
                  *\<^sub>R m_hitNormalWorld callback)"

definition stepForward_hit ::
  "closest_result_callback \<Rightarrow> character_controller \<Rightarrow> character_controller" where
  "stepForward_hit callback s =
     s\<lparr>targetPosition := currentPosition s + stepForward_step callback s\<rparr>"

text \<open>
  The deflection of the claim about \<^verbatim>\<open>stepForward\<close>: a hit with normal \<open>n\<close> and fraction
  \<open>f\<close> replaces the remaining step \<open>s\<close> by \<open>s + (s \<cdot> n) (1 - f) n\<close>.
\<close>

definition deflected_step :: "closest_result_callback \<Rightarrow> vec3 \<Rightarrow> vec3" where
  "deflected_step cb step =
     step + (dot step (m_hitNormalWorld cb) * (1 - m_closestHitFraction cb))
              *\<^sub>R m_hitNormalWorld cb"


definition MIN_STEP_DISTANCE_SQUARED :: real where
  "MIN_STEP_DISTANCE_SQUARED = 1 / 1000000"

text \<open>
  The \<^verbatim>\<open>while\<close> loop: \<open>maxIter\<close> and \<open>stepLength2\<close> are the loop's two local variables.
  Besides the state, the model returns the callbacks of the sweeps the loop made, in order.
\<close>

fun stepForward_loop ::
  "collision_world \<Rightarrow> ghost_object \<Rightarrow> convex_shape \<Rightarrow> nat \<Rightarrow> real \<Rightarrow> character_controller
     \<Rightarrow> character_controller \<times> closest_result_callback list" where
  "stepForward_loop world g sh 0 stepLength2 s = (s, [])"
| "stepForward_loop world g sh (Suc maxIter) stepLength2 s =
     (if stepLength2 > MIN_STEP_DISTANCE_SQUARED then
        (let callback = stepForward_callback world g sh s
         in if hasHit callback then
              (let s1 = stepForward_hit callback s;
                   r = stepForward_loop world g sh maxIter
                         (length2 (stepForward_step callback s)) s1
               in (fst r, callback # snd r))
            else (s\<lparr>currentPosition := targetPosition s\<rparr>, [callback]))
      else (s, []))"

definition stepForward ::
  "collision_world \<Rightarrow> vec3 \<Rightarrow> character_controller
     \<Rightarrow> error + character_controller \<times> closest_result_callback list" where
  "stepForward world movement s =
     (let s1 = s\<lparr>targetPosition := currentPosition s + movement\<rparr> in
      case convexShape s1 of
        None \<Rightarrow> Inl NullDereference
      | Some sh \<Rightarrow>
          (let shapeMargin = margin sh;
               sh1 = sh\<lparr>margin := shapeMargin + addedMargin s1\<rparr>;
               s2 = s1\<lparr>convexShape := Some sh1\<rparr>;
               step = targetPosition s2 - currentPosition s2;
               stepLength2 = length2 step
           in case ghostObject s2 of
                None \<Rightarrow>
                  (if stepLength2 > MIN_STEP_DISTANCE_SQUARED then Inl NullDereference
                   else Inr (s2\<lparr>convexShape := Some (sh1\<lparr>margin := shapeMargin\<rparr>)\<rparr>, []))
              | Some g \<Rightarrow>
                  (let r = stepForward_loop world g sh1 10 stepLength2 s2
                   in Inr ((fst r)\<lparr>convexShape := Some (sh1\<lparr>margin := shapeMargin\<rparr>)\<rparr>,
                           snd r))))"

section \<open>Step down\<close>

text \<open>
  A sweep of \<^verbatim>\<open>stepDown\<close> from \<open>currentPosition\<close> to \<open>targetPosition\<close>, with a
  \<^verbatim>\<open>StepDownConvexResultCallback\<close> constructed with \<open>start\<close> and \<open>step\<close>.
\<close>

definition stepDown_callback ::
  "collision_world \<Rightarrow> ghost_object \<Rightarrow> convex_shape \<Rightarrow> vec3 \<Rightarrow> vec3 \<Rightarrow> character_controller
     \<Rightarrow> closest_result_callback" where
  "stepDown_callback world g sh start step s =
     convexSweepTest
       (StepDown_addSingleResult (ghostPtr g) (currentUp s) start step
          (walkDirection s) (maxSlopeCosine s) (radius s) (halfHeight s))
       (sweepContacts world sh (currentPosition s) (targetPosition s)) new_callback"

text \<open>
  \<^verbatim>\<open>stepDown\<close>. Besides the state, the model returns the callbacks of the sweeps made,
  in order: the first sweep always, the second only on the path that makes it.
\<close>

definition stepDown ::
  "collision_world \<Rightarrow> real \<Rightarrow> character_controller
     \<Rightarrow> error + character_controller \<times> closest_result_callback list" where
  "stepDown world dt s =
     (case ghostObject s of
        None \<Rightarrow> Inl NullDereference
      | Some g \<Rightarrow>
     (case convexShape s of
        None \<Rightarrow> Inl NullDereference
      | Some sh \<Rightarrow>
          (let step = (verticalVelocity s * dt - lastStepUp s) *\<^sub>R currentUp s;
               s1 = s\<lparr>targetPosition := currentPosition s + step\<rparr>;
               callback = stepDown_callback world g sh (currentPosition s) step s1;
               s2 = s1\<lparr>isOnGround := False\<rparr>
           in if hasHit callback then
                Inr (s2\<lparr>currentPosition :=
                          currentPosition s2 + m_closestHitFraction callback *\<^sub>R step,
                        verticalVelocity := 0, verticalOffset := 0,
                        isJumping := False, isOnGround := True\<rparr>, [callback])
              else if \<not> isJumping s2 then
                (let step2 = (- stepDownHeight s2) *\<^sub>R currentUp s2;
                     s3 = s2\<lparr>currentPosition := targetPosition s2\<rparr>;
                     s4 = s3\<lparr>targetPosition := currentPosition s3 + step2\<rparr>;
                     callback2 = stepDown_callback world g sh (currentPosition s2) step2 s4
                 in if hasHit callback2 then
                      Inr (s4\<lparr>currentPosition :=
                                currentPosition s4 + m_closestHitFraction callback2 *\<^sub>R step2,
                              verticalVelocity := 0, verticalOffset := 0,
                              isJumping := False, isOnGround := True\<rparr>,
                           [callback, callback2])
                    else Inr (s4\<lparr>lastStepUp := 0\<rparr>, [callback, callback2]))
              else Inr (s2\<lparr>currentPosition := targetPosition s2\<rparr>, [callback]))))"

section \<open>The player step\<close>

text \<open>The first part of \<^verbatim>\<open>playerStep\<close>: the update of the fall velocity and offset.\<close>

definition updateFallVelocity :: "real \<Rightarrow> character_controller \<Rightarrow> character_controller" where
  "updateFallVelocity dt s =
     (let s1 =
            (if isHovering s then
               (let HOVER_RELAXATION_TIMESCALE = 1 in
                s\<lparr>verticalVelocity :=
                    verticalVelocity s * (1 - dt / HOVER_RELAXATION_TIMESCALE)\<rparr>)
             else
               (let sg = s\<lparr>verticalVelocity := verticalVelocity s - gravity s * dt\<rparr>
                in if verticalVelocity sg > jumpSpeed sg
                   then sg\<lparr>verticalVelocity := jumpSpeed sg\<rparr>
                   else if verticalVelocity sg < - maxFallSpeed sg
                   then sg\<lparr>verticalVelocity := - maxFallSpeed sg\<rparr>
                   else sg))
      in s1\<lparr>verticalOffset := verticalVelocity s1 * dt\<rparr>)"

definition playerStep ::
  "collision_world \<Rightarrow> real \<Rightarrow> character_controller \<Rightarrow> error + character_controller" where
  "playerStep world dt s =
     (if \<not> enabled s then Inr s
      else
        (let s2 = updateFallVelocity dt s
         in case ghostObject s2 of
              None \<Rightarrow> Inl NullDereference
            | Some xform \<Rightarrow>
           (case scanDown world s2 of
              Inl e \<Rightarrow> Inl e
            | Inr s3 \<Rightarrow>
           (case stepUp world s3 of
              Inl e \<Rightarrow> Inl e
            | Inr s4 \<Rightarrow>
                (let dtMoving = (if dt < velocityTimeInterval s4 then dt
                                 else velocityTimeInterval s4);
                     s5 = s4\<lparr>velocityTimeInterval := velocityTimeInterval s4 - dt,
                             stepDt := stepDt s4 + dt\<rparr>;
                     move = dtMoving *\<^sub>R walkDirection s5
                 in case stepForward world move s5 of
                      Inl e \<Rightarrow> Inl e
                    | Inr r6 \<Rightarrow>
                   (case stepDown world dt (fst r6) of
                      Inl e \<Rightarrow> Inl e
                    | Inr r7 \<Rightarrow>
                   (case ghostObject (fst r7) of
                      None \<Rightarrow> Inl NullDereference
                    | Some g \<Rightarrow>
                        Inr ((fst r7)\<lparr>ghostObject :=
                               Some (g\<lparr>origin := currentPosition (fst r7),
                                        rotation := rotation xform\<rparr>)\<rparr>))))))))"

section \<open>Penetration recovery\<close>







section \<open>Before and after the simulation step\<close>

text \<open>
  The avatar owning the controller. The two quaternion rotations (\<^verbatim>\<open>quatRotate\<close> of the
  physics engine and the quaternion-vector product of the maths library) are outside the
  given sources and are parameters of the two functions below.
\<close>

record avatar_data =
  avatarOrientation :: quat
  avatarPosition :: vec3
  avatarVelocity :: vec3

definition LOCAL_UP_AXIS :: vec3 where
  "LOCAL_UP_AXIS = btVector3 0 1 0"

definition preSimulation ::
  "(quat \<Rightarrow> vec3 \<Rightarrow> vec3) \<Rightarrow> (quat \<Rightarrow> vec3 \<Rightarrow> vec3) \<Rightarrow> avatar_data \<Rightarrow> real
     \<Rightarrow> character_controller \<Rightarrow> error + character_controller" where
  "preSimulation quatRotate glmRotate avatar timeStep s =
     (if enabled s \<and> dynamicsWorld s \<noteq> None then
        (let rot = avatarOrientation avatar;
             s1 = s\<lparr>currentUp := quatRotate rot LOCAL_UP_AXIS\<rparr>;
             position = avatarPosition avatar + glmRotate rot (shapeLocalOffset s1);
             walkVelocity = avatarVelocity avatar
         in case ghostObject s1 of
              None \<Rightarrow> Inl NullDereference
            | Some g \<Rightarrow>
                (case setVelocityForTimeInterval walkVelocity timeStep
                        (s1\<lparr>ghostObject := Some (g\<lparr>origin := position, rotation := rot\<rparr>)\<rparr>) of
                   Inl e \<Rightarrow> Inl e
                 | Inr s2 \<Rightarrow>
                     (let s3 =
                            (if pendingFlags s2 AND PENDING_FLAG_JUMP \<noteq> 0 then
                               (let sj = s2\<lparr>pendingFlags :=
                                              pendingFlags s2 AND NOT PENDING_FLAG_JUMP\<rparr>
                                in if canJump sj
                                   then sj\<lparr>verticalVelocity := jumpSpeed sj, isJumping := True\<rparr>
                                   else sj)
                             else s2)
                      in Inr (s3\<lparr>lastPosition := position, stepDt := 0\<rparr>))))
      else Inr s)"

text \<open>
  The local \<open>position\<close> of \<^verbatim>\<open>postSimulation\<close> after the throttle, for the ghost \<open>g\<close>:
  what is written to the avatar before the rotated shape offset is subtracted.
\<close>

definition postSimulation_maxStepLength :: "character_controller \<Rightarrow> real" where
  "postSimulation_maxStepLength s =
     (let finalVelocity = walkDirection s + verticalVelocity s *\<^sub>R currentUp s;
          MAX_RESOLUTION_SPEED = 5
      in max MAX_RESOLUTION_SPEED (2 * vlength finalVelocity) * stepDt s)"

definition postSimulation_position :: "character_controller \<Rightarrow> ghost_object \<Rightarrow> vec3" where
  "postSimulation_position s g =
     (let position = origin g;
          finalStep = position - lastPosition s;
          maxStepLength = postSimulation_maxStepLength s;
          stepLength = vlength finalStep
      in if stepLength > maxStepLength
         then lastPosition s + (maxStepLength / stepLength) *\<^sub>R finalStep
         else position)"

definition postSimulation ::
  "(quat \<Rightarrow> vec3 \<Rightarrow> vec3) \<Rightarrow> character_controller \<Rightarrow> avatar_data \<Rightarrow> avatar_data" where
  "postSimulation glmRotate s avatar =
     (if enabled s then
        (case ghostObject s of
           None \<Rightarrow> avatar
         | Some g \<Rightarrow>
             avatar\<lparr>avatarOrientation := rotation g,
                    avatarPosition := postSimulation_position s g
                      - glmRotate (rotation g) (shapeLocalOffset s)\<rparr>)
      else avatar)"

section \<open>Example controller and worlds\<close>

text \<open>
  A capsule of radius 0.3 and half height 0.6 standing upright with its centre at height
  0.9, with the constructor's gravity, fall speed and jump speed, registered and enabled.
\<close>

definition example_ghost :: ghost_object where
  "example_ghost =
     \<lparr>ghostPtr = 1, origin = btVector3 0 (9 / 10) 0, rotation = btQuaternion 0 0 0 1\<rparr>"

definition example_shape :: convex_shape where
  "example_shape = \<lparr>capsuleRadius = 3 / 10, capsuleHeight = 12 / 10, margin = 4 / 100\<rparr>"

definition example_controller :: character_controller where
  "example_controller =
     \<lparr>enabled = True,
      ghostObject = Some example_ghost,
      convexShape = Some example_shape,
      dynamicsWorld = Some 2,
      addedMargin = 2 / 100,
      currentPosition = btVector3 0 (9 / 10) 0,
      targetPosition = btVector3 0 (9 / 10) 0,
      currentUp = btVector3 0 1 0,
      walkDirection = btVector3 0 0 0,
      normalizedDirection = btVector3 0 0 0,
      floorNormal = btVector3 0 1 0,
      lastPosition = btVector3 0 (9 / 10) 0,
      shapeLocalOffset = btVector3 0 0 0,
      velocityTimeInterval = 0,
      verticalVelocity = 0,
      verticalOffset = 0,
      gravity = 5,
      maxFallSpeed = 55,
      jumpSpeed = 5,
      maxSlopeCosine = 7071 / 10000,
      lastStepUp = 0,
      stepUpHeight = 55 / 100,
      stepDownHeight = 3 / 10,
      radius = 3 / 10,
      halfHeight = 6 / 10,
      stepDt = 0,
      isOnGround = False,
      isJumping = False,
      isHovering = False,
      touchingContact = False,
      jumpToHoverStart = 0,
      pendingFlags = 0\<rparr>"

text \<open>
  Worlds that answer every query with the same contacts, an obstacle with contact
  response, and contacts on it.
\<close>

definition identity_basis :: mat3 where
  "identity_basis = btMatrix3x3 (btVector3 1 0 0) (btVector3 0 1 0) (btVector3 0 0 1)"

definition floor_object :: collision_object where
  "floor_object = \<lparr>objectPtr = 7, hasContactResponse = True, worldBasis = identity_basis\<rparr>"

definition floor_ray_hit :: "real \<Rightarrow> local_ray_result \<times> bool" where
  "floor_ray_hit f =
     (\<lparr>m_collisionObject = floor_object, m_rayNormalLocal = btVector3 0 1 0,
       m_rayFraction = f\<rparr>, True)"

definition sweep_hit :: "vec3 \<Rightarrow> real \<Rightarrow> local_convex_result \<times> bool" where
  "sweep_hit n f =
     (\<lparr>m_hitCollisionObject = floor_object, m_hitNormalLocal = n,
       m_hitPointLocal = btVector3 0 0 0, m_hitFraction = f\<rparr>, True)"

definition const_world ::
  "(local_ray_result \<times> bool) list \<Rightarrow> (local_convex_result \<times> bool) list
     \<Rightarrow> collision_world" where
  "const_world rays sweeps =
     \<lparr>rayContacts = (\<lambda>from to. rays), sweepContacts = (\<lambda>sh from to. sweeps),
      overlappingPairs = (\<lambda>sh g. [])\<rparr>"






text \<open>
  A world that answers the sweep ending at \<open>(1, 0.9, 0)\<close> with one contact (normal
  \<open>(-1, 0, 0)\<close>, fraction 1/2) and every other query with none.
\<close>

definition one_hit_world :: collision_world where
  "one_hit_world =
     \<lparr>rayContacts = (\<lambda>from to. []),
      sweepContacts = (\<lambda>sh from to.
        if to = btVector3 1 (9 / 10) 0 then [sweep_hit (btVector3 (- 1) 0 0) (1 / 2)] else []),
      overlappingPairs = (\<lambda>sh g. [])\<rparr>"


text \<open>An avatar at the example controller's position, and a rotation that turns nothing.\<close>

definition identity_rotation :: "quat \<Rightarrow> vec3 \<Rightarrow> vec3" where
  "identity_rotation q v = v"

definition example_avatar :: avatar_data where
  "example_avatar =
     \<lparr>avatarOrientation = btQuaternion 0 0 0 1, avatarPosition = btVector3 0 (9 / 10) 0,
      avatarVelocity = btVector3 0 0 0\<rparr>"


section \<open>Vector facts\<close>

lemma vec3_zero_components [simp]: "getX 0 = 0" "getY 0 = 0" "getZ 0 = 0"
  by (simp_all add: zero_vec3_def)


lemma FLT_EPSILON_pos: "0 < FLT_EPSILON"
  by (simp add: FLT_EPSILON_def)

lemma vlength_3_4_0: "vlength (btVector3 3 4 0) = 5"
proof -
  have "sqrt 25 = sqrt (5\<^sup>2)" by simp
  also have "\<dots> = (5::real)" by (simp only: real_sqrt_abs abs_numeral)
  finally show ?thesis by (simp add: vlength_def length2_def dot_def)
qed

lemma example_controller_fields:
  "enabled example_controller = True"
  "ghostObject example_controller = Some example_ghost"
  "convexShape example_controller = Some example_shape"
  "dynamicsWorld example_controller = Some 2"
  "addedMargin example_controller = 2 / 100"
  "currentPosition example_controller = btVector3 0 (9 / 10) 0"
  "targetPosition example_controller = btVector3 0 (9 / 10) 0"
  "currentUp example_controller = btVector3 0 1 0"
  "walkDirection example_controller = btVector3 0 0 0"
  "lastPosition example_controller = btVector3 0 (9 / 10) 0"
  "shapeLocalOffset example_controller = btVector3 0 0 0"
  "velocityTimeInterval example_controller = 0"
  "verticalVelocity example_controller = 0"
  "gravity example_controller = 5"
  "maxFallSpeed example_controller = 55"
  "jumpSpeed example_controller = 5"
  "maxSlopeCosine example_controller = 7071 / 10000"
  "lastStepUp example_controller = 0"
  "stepUpHeight example_controller = 55 / 100"
  "stepDownHeight example_controller = 3 / 10"
  "radius example_controller = 3 / 10"
  "halfHeight example_controller = 6 / 10"
  "stepDt example_controller = 0"
  "isOnGround example_controller = False"
  "isJumping example_controller = False"
  "isHovering example_controller = False"
  "pendingFlags example_controller = 0"
  by (simp_all add: example_controller_def)

lemma example_ghost_fields:
  "ghostPtr example_ghost = 1" "origin example_ghost = btVector3 0 (9 / 10) 0"
  by (simp_all add: example_ghost_def)


section \<open>Normalising the walk direction\<close>

text \<open>
  Claim C9. A vector shorter than \<^verbatim>\<open>FLT_EPSILON\<close> is normalised to the zero vector
  without any division; a vector of length at least \<^verbatim>\<open>FLT_EPSILON\<close> is divided by its
  length, which is then not zero, so the division's assertion never fails; and
  \<^verbatim>\<open>setVelocityForTimeInterval\<close> stores exactly this result as \<open>normalizedDirection\<close>.
\<close>

theorem C9_getNormalizedVector:
  "(vlength v < FLT_EPSILON \<longrightarrow> getNormalizedVector v = Inr (btVector3 0 0 0)) \<and>
   (FLT_EPSILON \<le> vlength v \<longrightarrow>
      vlength v \<noteq> 0 \<and> getNormalizedVector v = Inr ((1 / vlength v) *\<^sub>R v)) \<and>
   getNormalizedVector v \<noteq> Inl AssertionFailed \<and>
   (\<exists>n. getNormalizedVector v = Inr n \<and>
      setVelocityForTimeInterval v t s =
        Inr (s\<lparr>walkDirection := v, normalizedDirection := n,
               velocityTimeInterval := velocityTimeInterval s + t\<rparr>))"
  using FLT_EPSILON_pos
  by (auto simp: getNormalizedVector_def btVector3_div_def setVelocityForTimeInterval_def
      Let_def)

theorem C9_getNormalizedVector_witness:
  "vlength (btVector3 0 0 0) < FLT_EPSILON \<and>
   getNormalizedVector (btVector3 0 0 0) = Inr (btVector3 0 0 0) \<and>
   FLT_EPSILON \<le> vlength (btVector3 3 4 0) \<and>
   getNormalizedVector (btVector3 3 4 0) = Inr (btVector3 (3 / 5) (4 / 5) 0)"
proof -
  have z: "vlength (btVector3 0 0 0) < FLT_EPSILON"
    by (simp add: vlength_def length2_def dot_def FLT_EPSILON_def)
  have b: "FLT_EPSILON \<le> vlength (btVector3 3 4 0)"
    by (simp add: vlength_3_4_0 FLT_EPSILON_def)
  from z b C9_getNormalizedVector [of "btVector3 0 0 0"]
    C9_getNormalizedVector [of "btVector3 3 4 0"]
  show ?thesis by (simp add: vlength_3_4_0 scaleR_vec3_def)
qed

section \<open>Jump to hover\<close>

text \<open>
  Claim C7. For a \<^verbatim>\<open>jump()\<close> call on a controller that is not hovering: it starts
  hovering exactly when it is jumping and the unsigned 64-bit difference between the clock
  and \<open>jumpToHoverStart\<close> is below one second; in particular when it is jumping and less
  than a million microseconds have elapsed since \<open>jumpToHoverStart\<close>. When it is not
  jumping the call only sets the pending jump flag and restarts the timer, and the
  controller stays out of hovering.
\<close>

theorem C7_jump_to_hover:
  assumes "\<not> isHovering s"
  shows "(isHovering (jump now s) \<longleftrightarrow>
            isJumping s \<and> now - jumpToHoverStart s < USECS_PER_SECOND) \<and>
         (isJumping s \<and> jumpToHoverStart s \<le> now \<and>
            unat now - unat (jumpToHoverStart s) < 1000000 \<longrightarrow> isHovering (jump now s)) \<and>
         (\<not> isJumping s \<longrightarrow>
            jump now s = s\<lparr>jumpToHoverStart := now,
                           pendingFlags := pendingFlags s OR PENDING_FLAG_JUMP\<rparr>)"
  using assms
  by (auto simp: jump_def Let_def USECS_PER_SECOND_def word_less_nat_alt unat_sub
      word_le_nat_alt)

theorem C7_jump_to_hover_witness:
  "\<not> isHovering (example_controller\<lparr>isJumping := True, jumpToHoverStart := 1000\<rparr>) \<and>
   isJumping (example_controller\<lparr>isJumping := True, jumpToHoverStart := 1000\<rparr>) \<and>
   isHovering (jump 500000 (example_controller\<lparr>isJumping := True, jumpToHoverStart := 1000\<rparr>)) \<and>
   \<not> isHovering (jump 2000000 (example_controller\<lparr>isJumping := True, jumpToHoverStart := 1000\<rparr>)) \<and>
   \<not> isHovering example_controller \<and> \<not> isJumping example_controller \<and>
   \<not> isHovering (jump 500000 example_controller) \<and>
   jumpToHoverStart (jump 500000 example_controller) = 500000"
proof -
  let ?s = "example_controller\<lparr>isJumping := True, jumpToHoverStart := 1000\<rparr>"
  have h: "\<not> isHovering ?s" "\<not> isHovering example_controller"
    by (simp_all add: example_controller_def)
  have j: "isJumping ?s" "\<not> isJumping example_controller"
    by (simp_all add: example_controller_def)
  have t: "jumpToHoverStart ?s = 1000" by simp
  from h j C7_jump_to_hover [OF h(1), of 500000] C7_jump_to_hover [OF h(1), of 2000000]
    C7_jump_to_hover [OF h(2), of 500000]
  show ?thesis
    by (simp add: t USECS_PER_SECOND_def)
qed

section \<open>Disabling and enabling\<close>

lemma ADD_bit: "bit PENDING_FLAG_ADD_TO_SIMULATION n \<longleftrightarrow> n = 0"
  by (auto simp: PENDING_FLAG_ADD_TO_SIMULATION_def bit_simps)

lemma REMOVE_bit: "bit PENDING_FLAG_REMOVE_FROM_SIMULATION n \<longleftrightarrow> n = 1"
  by (auto simp: PENDING_FLAG_REMOVE_FROM_SIMULATION_def bit_simps)

lemma and_flag_nonzero:
  fixes w f :: "32 word"
  assumes "\<And>n. bit f n \<longleftrightarrow> n = k" and "k < 32"
  shows "w AND f \<noteq> 0 \<longleftrightarrow> bit w k"
proof
  assume "w AND f \<noteq> 0"
  have "\<exists>n. bit (w AND f) n"
  proof (rule ccontr)
    assume "\<nexists>n. bit (w AND f) n"
    then have "w AND f = 0" by (intro bit_eqI) simp
    with \<open>w AND f \<noteq> 0\<close> show False by simp
  qed
  then show "bit w k" using assms by (auto simp: bit_and_iff)
next
  assume "bit w k"
  then have "bit (w AND f) k" using assms by (simp add: bit_and_iff)
  then show "w AND f \<noteq> 0" by auto
qed

lemma needsAddition_bit: "needsAddition s \<longleftrightarrow> bit (pendingFlags s) 0"
  unfolding needsAddition_def by (rule and_flag_nonzero) (simp_all add: ADD_bit)

lemma needsRemoval_bit: "needsRemoval s \<longleftrightarrow> bit (pendingFlags s) 1"
  unfolding needsRemoval_def by (rule and_flag_nonzero) (simp_all add: REMOVE_bit)

text \<open>
  From any state, disabling then enabling leaves an addition pending; a removal is pending
  afterwards exactly when one was pending before or the controller was enabled and
  registered in a dynamics world.
\<close>

lemma disable_enable_net:
  "needsAddition (setEnabled True (setEnabled False s)) \<and>
   (needsRemoval (setEnabled True (setEnabled False s)) \<longleftrightarrow>
      needsRemoval s \<or> (enabled s \<and> dynamicsWorld s \<noteq> None))"
  by (cases "enabled s"; cases "dynamicsWorld s")
    (auto simp: setEnabled_def Let_def needsAddition_bit needsRemoval_bit bit_simps ADD_bit
      REMOVE_bit)


text \<open>
  Claim C8. From an enabled controller registered in a dynamics world with neither the add
  nor the remove flag pending, \<^verbatim>\<open>setEnabled(false)\<close> then \<^verbatim>\<open>setEnabled(true)\<close> leaves the
  controller enabled with \<open>needsAddition\<close> true and \<open>needsRemoval\<close> true (the one removal
  the disabling requested, since the controller was registered); the pending flags differ
  from the initial ones by exactly these two bits, and repeating the pair of calls changes
  no flag, so no request is duplicated.
\<close>

theorem C8_disable_enable:
  assumes "enabled s" and "dynamicsWorld s \<noteq> None"
    and "\<not> needsAddition s" and "\<not> needsRemoval s"
  shows "needsAddition (setEnabled True (setEnabled False s)) \<and>
         needsRemoval (setEnabled True (setEnabled False s)) \<and>
         pendingFlags (setEnabled True (setEnabled False s)) =
           pendingFlags s OR PENDING_FLAG_ADD_TO_SIMULATION
             OR PENDING_FLAG_REMOVE_FROM_SIMULATION \<and>
         enabled (setEnabled True (setEnabled False s)) \<and>
         pendingFlags (setEnabled True (setEnabled False
             (setEnabled True (setEnabled False s)))) =
           pendingFlags (setEnabled True (setEnabled False s))"
proof -
  have e: "setEnabled True (setEnabled False s) =
      s\<lparr>pendingFlags := ((pendingFlags s OR PENDING_FLAG_REMOVE_FROM_SIMULATION)
            AND NOT PENDING_FLAG_ADD_TO_SIMULATION) OR PENDING_FLAG_ADD_TO_SIMULATION,
         isOnGround := False, isHovering := True\<rparr>"
    using assms(1,2) by (simp add: setEnabled_def)
  have f: "((pendingFlags s OR PENDING_FLAG_REMOVE_FROM_SIMULATION)
            AND NOT PENDING_FLAG_ADD_TO_SIMULATION) OR PENDING_FLAG_ADD_TO_SIMULATION
         = pendingFlags s OR PENDING_FLAG_ADD_TO_SIMULATION
             OR PENDING_FLAG_REMOVE_FROM_SIMULATION"
    by (rule bit_eqI) (auto simp: bit_simps ADD_bit REMOVE_bit)
  show ?thesis
    unfolding e using assms(1,2)
    by (auto simp: setEnabled_def needsAddition_bit needsRemoval_bit f bit_simps ADD_bit
        REMOVE_bit intro!: bit_eqI)
qed

theorem C8_disable_enable_witness:
  "enabled example_controller \<and> dynamicsWorld example_controller \<noteq> None \<and>
   \<not> needsAddition example_controller \<and> \<not> needsRemoval example_controller \<and>
   needsAddition (setEnabled True (setEnabled False example_controller)) \<and>
   needsRemoval (setEnabled True (setEnabled False example_controller)) \<and>
   pendingFlags (setEnabled True (setEnabled False example_controller)) = 3"
proof -
  have h: "enabled example_controller" "dynamicsWorld example_controller \<noteq> None"
    "\<not> needsAddition example_controller" "\<not> needsRemoval example_controller"
    by (simp_all add: example_controller_def needsAddition_def needsRemoval_def)
  have p: "pendingFlags example_controller = 0"
    by (simp add: example_controller_def)
  from h C8_disable_enable [OF h] show ?thesis
    by (simp add: p PENDING_FLAG_ADD_TO_SIMULATION_def
        PENDING_FLAG_REMOVE_FROM_SIMULATION_def)
qed

section \<open>Hover hysteresis of the downward scan\<close>

lemma scanDown_callback_no_contacts:
  "scanDown_callback (const_world [] sw) g s = new_callback"
  by (simp add: scanDown_callback_def const_world_def Let_def)

lemma scanDown_callback_floor:
  "ghostPtr g \<noteq> 7 \<Longrightarrow> f \<le> 1 \<Longrightarrow>
   scanDown_callback (const_world [floor_ray_hit f] sw) g s =
     \<lparr>m_closestHitFraction = f, m_hitObject = Some 7,
      m_hitNormalWorld = btVector3 0 1 0, m_hitPointWorld = 0\<rparr>"
  by (simp add: scanDown_callback_def const_world_def Let_def floor_ray_hit_def
      NotMeRay_addSingleResult_def ClosestRayResultCallback_addSingleResult_def
      new_callback_def floor_object_def setInterpolate3_def zero_vec3_def)

text \<open>
  Claim C2. \<^verbatim>\<open>scanDown\<close> casts its ray from \<open>currentPosition\<close> down along \<open>-currentUp\<close>
  over \<open>20 + halfHeight + radius\<close>. If the ray has no hit, \<open>isHovering\<close> becomes true; if
  it has a hit while the controller is hovering and the hit distance (the hit fraction
  times the ray length) is strictly below \<open>3 + halfHeight + radius\<close>, \<open>isHovering\<close>
  becomes false; in every other case with a hit the state is unchanged. Nothing but
  \<open>isHovering\<close> is ever changed.
\<close>

theorem C2_scanDown_hover:
  assumes "ghostObject s = Some g"
  shows "scanDown_callback world g s =
           rayTest (NotMeRay_addSingleResult (ghostPtr g))
             (rayContacts world (currentPosition s)
                (currentPosition s - (20 + halfHeight s + radius s) *\<^sub>R currentUp s))
             new_callback \<and>
         (\<not> hasHit (scanDown_callback world g s) \<longrightarrow>
            scanDown world s = Inr (s\<lparr>isHovering := True\<rparr>)) \<and>
         (hasHit (scanDown_callback world g s) \<and> isHovering s \<and>
          m_closestHitFraction (scanDown_callback world g s) * (20 + halfHeight s + radius s)
            < 3 + halfHeight s + radius s \<longrightarrow>
            scanDown world s = Inr (s\<lparr>isHovering := False\<rparr>)) \<and>
         (hasHit (scanDown_callback world g s) \<and>
          \<not> (isHovering s \<and>
             m_closestHitFraction (scanDown_callback world g s)
               * (20 + halfHeight s + radius s) < 3 + halfHeight s + radius s) \<longrightarrow>
            scanDown world s = Inr s)"
  using assms by (simp add: scanDown_def scanDown_callback_def Let_def)

theorem C2_scanDown_hover_witness:
  "scanDown (const_world [] []) example_controller
     = Inr (example_controller\<lparr>isHovering := True\<rparr>) \<and>
   scanDown (const_world [floor_ray_hit (1 / 10)] []) (example_controller\<lparr>isHovering := True\<rparr>)
     = Inr (example_controller\<lparr>isHovering := False\<rparr>) \<and>
   scanDown (const_world [floor_ray_hit (1 / 2)] []) (example_controller\<lparr>isHovering := True\<rparr>)
     = Inr (example_controller\<lparr>isHovering := True\<rparr>) \<and>
   scanDown (const_world [floor_ray_hit (1 / 2)] []) example_controller
     = Inr example_controller"
proof -
  let ?h = "example_controller\<lparr>isHovering := True\<rparr>"
  have g: "ghostObject example_controller = Some example_ghost"
    "ghostObject ?h = Some example_ghost"
    by (simp_all add: example_controller_def)
  have p: "ghostPtr example_ghost \<noteq> 7" by (simp add: example_ghost_def)
  have f: "halfHeight example_controller = 6 / 10" "radius example_controller = 3 / 10"
    "isHovering example_controller = False"
    by (simp_all add: example_controller_def)
  note cb = scanDown_callback_no_contacts scanDown_callback_floor [OF p]
  from C2_scanDown_hover [OF g(1), of "const_world [] []", THEN conjunct2]
    C2_scanDown_hover [OF g(2), of "const_world [floor_ray_hit (1 / 10)] []", THEN conjunct2]
    C2_scanDown_hover [OF g(2), of "const_world [floor_ray_hit (1 / 2)] []", THEN conjunct2]
    C2_scanDown_hover [OF g(1), of "const_world [floor_ray_hit (1 / 2)] []", THEN conjunct2]
  show ?thesis
    by (simp add: cb hasHit_def new_callback_def f)
qed

section \<open>Ground state after the step down\<close>

lemma stepDown_callback_no_contacts:
  "stepDown_callback (const_world rs []) g sh st step s = new_callback"
  by (simp add: stepDown_callback_def const_world_def)





section \<open>The slope filter of the upward sweep\<close>

lemma passesSlope_pair:
  "passesSlope up m (r, nws) \<longleftrightarrow> \<not> dot up (worldNormal r nws) < m"
  by (simp add: passesSlope_def)

lemma NotMeConvex_reject:
  "dot up (worldNormal r nws) < m \<Longrightarrow> NotMeConvex_addSingleResult me up m cb r nws = (cb, 1)"
  by (simp add: NotMeConvex_addSingleResult_def Let_def)

lemma convexSweepTest_NotMe_filter:
  "convexSweepTest (NotMeConvex_addSingleResult me up m) (filter (passesSlope up m) cs) cb =
   convexSweepTest (NotMeConvex_addSingleResult me up m) cs cb"
proof (induction cs arbitrary: cb)
  case Nil
  show ?case by simp
next
  case (Cons c cs)
  obtain r nws where c: "c = (r, nws)" by (cases c)
  show ?case
    by (simp add: c passesSlope_pair NotMeConvex_reject Cons.IH)
qed

text \<open>
  Whatever holds of every callback that has just recorded a contact passing the filters
  holds of the callback after the sweep, unless no contact was recorded at all.
\<close>

lemma convexSweepTest_NotMe_recorded:
  assumes "cb = new_callback \<or> P cb"
    and "\<And>cb r nws. (r, nws) \<in> set cs \<Longrightarrow> passesSlope up m (r, nws) \<Longrightarrow>
           objectPtr (m_hitCollisionObject r) \<noteq> me \<Longrightarrow>
           hasContactResponse (m_hitCollisionObject r) \<Longrightarrow>
           P (fst (ClosestConvexResultCallback_addSingleResult cb r nws))"
  shows "convexSweepTest (NotMeConvex_addSingleResult me up m) cs cb = new_callback \<or>
         P (convexSweepTest (NotMeConvex_addSingleResult me up m) cs cb)"
  using assms
proof (induction cs arbitrary: cb)
  case Nil
  then show ?case by simp
next
  case (Cons c cs)
  obtain r nws where c: "c = (r, nws)" by (cases c)
  let ?cb' = "(if m_hitFraction r \<le> m_closestHitFraction cb
        then fst (NotMeConvex_addSingleResult me up m cb r nws) else cb)"
  have "?cb' = new_callback \<or> P ?cb'"
    using Cons.prems(1) Cons.prems(2) [of r nws cb]
    by (auto simp: c NotMeConvex_addSingleResult_def Let_def passesSlope_pair)
  then show ?case
    using Cons.IH [of ?cb'] Cons.prems(2) by (simp add: c)
qed

lemma stepUp_callback_filtered:
  "stepUp_callback (slopeFiltered (- currentUp s) (7071 / 10000) world) g sh s =
   stepUp_callback world g sh s"
  by (simp add: stepUp_callback_def slopeFiltered_def Let_def convexSweepTest_NotMe_filter)

lemma stepUp_callback_recorded:
  "stepUp_callback world g sh s = new_callback \<or>
   (\<exists>c \<in> set (sweepContacts world sh
               (currentPosition s + (margin sh + addedMargin s) *\<^sub>R currentUp s)
               (currentPosition s + stepUpHeight s *\<^sub>R currentUp s)).
      passesSlope (- currentUp s) (7071 / 10000) c \<and>
      m_closestHitFraction (stepUp_callback world g sh s) = m_hitFraction (fst c) \<and>
      m_hitNormalWorld (stepUp_callback world g sh s) = worldNormal (fst c) (snd c))"
  unfolding stepUp_callback_def Let_def
  by (rule convexSweepTest_NotMe_recorded)
    (auto simp: ClosestConvexResultCallback_addSingleResult_def intro!: bexI)

text \<open>
  A hit recorded by the upward sweep has a normal pointing against \<open>currentUp\<close>, so
  \<^verbatim>\<open>stepUp\<close> never takes its interpolating branch: with or without a hit it moves the
  full \<open>stepUpHeight\<close>.
\<close>

lemma stepUp_callback_normal:
  assumes "hasHit (stepUp_callback world g sh s)"
  shows "dot (m_hitNormalWorld (stepUp_callback world g sh s)) (currentUp s) \<le> - (7071 / 10000)"
proof -
  from stepUp_callback_recorded [of world g sh s] assms
  obtain c where "passesSlope (- currentUp s) (7071 / 10000) c"
    and "m_hitNormalWorld (stepUp_callback world g sh s) = worldNormal (fst c) (snd c)"
    by (auto simp: hasHit_def new_callback_def)
  then show ?thesis
    by (simp add: passesSlope_def dot_def uminus_vec3_def algebra_simps)
qed

lemma stepUp_full_height:
  assumes "ghostObject s = Some g" and "convexShape s = Some sh"
  shows "\<exists>s'. stepUp world s = Inr s' \<and>
           currentPosition s' = currentPosition s + stepUpHeight s *\<^sub>R currentUp s \<and>
           lastStepUp s' = stepUpHeight s"
  using assms stepUp_callback_normal [of world g sh s]
  by (auto simp: stepUp_def Let_def)

lemma stepUp_callback_wall:
  assumes "currentUp s = btVector3 0 1 0"
  shows "stepUp_callback (const_world rs [sweep_hit (btVector3 1 0 0) f]) g sh s = new_callback"
  using assms
  by (simp add: stepUp_callback_def const_world_def sweep_hit_def
      NotMeConvex_addSingleResult_def new_callback_def dot_def Let_def worldNormal_def
      uminus_vec3_def)

text \<open>
  Claim C3, as stated, fails: a contact whose normal fails the slope test of the upward
  sweep does not determine the sweep fraction. With a wall contact (normal \<open>(1, 0, 0)\<close>,
  fraction 1/2) as the only obstacle, the callback records no hit, its closest fraction
  stays 1, and \<^verbatim>\<open>stepUp\<close> does exactly what it does in an empty world: it moves the full
  \<open>stepUpHeight\<close>.
\<close>

theorem C3_stepUp_wall_counterexample:
  "\<not> passesSlope (- currentUp example_controller) (7071 / 10000)
       (sweep_hit (btVector3 1 0 0) (1 / 2)) \<and>
   \<not> hasHit (stepUp_callback (const_world [] [sweep_hit (btVector3 1 0 0) (1 / 2)])
        example_ghost example_shape example_controller) \<and>
   m_closestHitFraction (stepUp_callback (const_world [] [sweep_hit (btVector3 1 0 0) (1 / 2)])
        example_ghost example_shape example_controller) = 1 \<and>
   stepUp (const_world [] [sweep_hit (btVector3 1 0 0) (1 / 2)]) example_controller =
     stepUp (const_world [] []) example_controller \<and>
   stepUp (const_world [] [sweep_hit (btVector3 1 0 0) (1 / 2)]) example_controller =
     Inr (example_controller\<lparr>targetPosition := btVector3 0 (145 / 100) 0,
            currentPosition := btVector3 0 (145 / 100) 0, lastStepUp := 55 / 100\<rparr>)"
proof -
  have u: "currentUp example_controller = btVector3 0 1 0"
    by (simp add: example_controller_def)
  have e: "stepUp_callback (const_world rs []) g sh s = new_callback" for rs g sh s
    by (simp add: stepUp_callback_def const_world_def Let_def)
  have f: "ghostObject example_controller = Some example_ghost"
    "convexShape example_controller = Some example_shape"
    "currentPosition example_controller = btVector3 0 (9 / 10) 0"
    "stepUpHeight example_controller = 55 / 100"
    by (simp_all add: example_controller_def)
  have n: "\<not> passesSlope (- currentUp example_controller) (7071 / 10000)
      (sweep_hit (btVector3 1 0 0) (1 / 2))"
    by (simp add: u passesSlope_def sweep_hit_def worldNormal_def dot_def uminus_vec3_def)
  show ?thesis
    using n
    by (simp add: stepUp_callback_wall [OF u] e stepUp_def f u Let_def hasHit_def
        new_callback_def plus_vec3_def scaleR_vec3_def)
qed

text \<open>
  Claim C3, amended. In the upward sweep of \<^verbatim>\<open>stepUp\<close> the callback rejects every contact
  whose normal \<open>n\<close> has \<open>n \<cdot> (-up) < 0.7071\<close>: it leaves the callback unchanged and returns
  1. Such contacts have no influence on \<^verbatim>\<open>stepUp\<close>: removing them from what the world
  answers changes nothing; and when the sweep has a hit, the fraction recorded is that of
  a contact that passes the slope test.
\<close>

theorem C3_stepUp_slope_filter:
  "(\<not> passesSlope (- currentUp s) (7071 / 10000) (r, nws) \<longrightarrow>
      NotMeConvex_addSingleResult me (- currentUp s) (7071 / 10000) cb r nws = (cb, 1)) \<and>
   stepUp (slopeFiltered (- currentUp s) (7071 / 10000) world) s = stepUp world s \<and>
   (\<forall>g sh. hasHit (stepUp_callback world g sh s) \<longrightarrow>
      (\<exists>c \<in> set (sweepContacts world sh
               (currentPosition s + (margin sh + addedMargin s) *\<^sub>R currentUp s)
               (currentPosition s + stepUpHeight s *\<^sub>R currentUp s)).
         passesSlope (- currentUp s) (7071 / 10000) c \<and>
         m_closestHitFraction (stepUp_callback world g sh s) = m_hitFraction (fst c)))"
proof (intro conjI allI impI)
  assume "\<not> passesSlope (- currentUp s) (7071 / 10000) (r, nws)"
  then show "NotMeConvex_addSingleResult me (- currentUp s) (7071 / 10000) cb r nws = (cb, 1)"
    by (simp add: passesSlope_pair NotMeConvex_reject)
next
  show "stepUp (slopeFiltered (- currentUp s) (7071 / 10000) world) s = stepUp world s"
    by (simp only: stepUp_def stepUp_callback_filtered)
next
  fix g sh
  assume "hasHit (stepUp_callback world g sh s)"
  with stepUp_callback_recorded [of world g sh s]
  show "\<exists>c \<in> set (sweepContacts world sh
               (currentPosition s + (margin sh + addedMargin s) *\<^sub>R currentUp s)
               (currentPosition s + stepUpHeight s *\<^sub>R currentUp s)).
         passesSlope (- currentUp s) (7071 / 10000) c \<and>
         m_closestHitFraction (stepUp_callback world g sh s) = m_hitFraction (fst c)"
    by (auto simp: hasHit_def new_callback_def)
qed


theorem C3_stepUp_slope_filter_witness:
  "\<not> passesSlope (- currentUp example_controller) (7071 / 10000)
       (sweep_hit (btVector3 1 0 0) (1 / 2)) \<and>
   NotMeConvex_addSingleResult 1 (- currentUp example_controller) (7071 / 10000) new_callback
       (fst (sweep_hit (btVector3 1 0 0) (1 / 2))) True = (new_callback, 1) \<and>
   hasHit (stepUp_callback
       (const_world [] [sweep_hit (btVector3 1 0 0) (1 / 2), sweep_hit (btVector3 0 (- 1) 0) (3 / 4)])
       example_ghost example_shape example_controller) \<and>
   m_closestHitFraction (stepUp_callback
       (const_world [] [sweep_hit (btVector3 1 0 0) (1 / 2), sweep_hit (btVector3 0 (- 1) 0) (3 / 4)])
       example_ghost example_shape example_controller) = 3 / 4"
proof -
  let ?wall = "sweep_hit (btVector3 1 0 0) (1 / 2)"
  let ?ceil = "sweep_hit (btVector3 0 (- 1) 0) (3 / 4)"
  let ?w = "const_world [] [?wall, ?ceil]"
  have u: "currentUp example_controller = btVector3 0 1 0"
    by (simp add: example_controller_def)
  have n: "\<not> passesSlope (- currentUp example_controller) (7071 / 10000) (fst ?wall, True)"
    by (simp add: u passesSlope_def sweep_hit_def worldNormal_def dot_def uminus_vec3_def)
  have w: "?wall = (fst ?wall, True)" by (simp add: sweep_hit_def)
  have h: "hasHit (stepUp_callback ?w example_ghost example_shape example_controller)"
    by (simp add: stepUp_callback_def const_world_def sweep_hit_def u
      NotMeConvex_addSingleResult_def ClosestConvexResultCallback_addSingleResult_def
      new_callback_def dot_def Let_def worldNormal_def uminus_vec3_def hasHit_def
      floor_object_def example_ghost_def)
  note t = C3_stepUp_slope_filter [of example_controller "fst ?wall" True 1 new_callback ?w]
  from t n have r: "NotMeConvex_addSingleResult 1 (- currentUp example_controller)
      (7071 / 10000) new_callback (fst ?wall) True = (new_callback, 1)"
    by blast
  from t h obtain c where c: "c \<in> set (sweepContacts ?w example_shape
               (currentPosition example_controller
                  + (margin example_shape + addedMargin example_controller)
                      *\<^sub>R currentUp example_controller)
               (currentPosition example_controller
                  + stepUpHeight example_controller *\<^sub>R currentUp example_controller))"
      "passesSlope (- currentUp example_controller) (7071 / 10000) c"
      "m_closestHitFraction (stepUp_callback ?w example_ghost example_shape example_controller)
         = m_hitFraction (fst c)"
    by blast
  from c(1) have "c = ?wall \<or> c = ?ceil" by (simp add: const_world_def)
  with c(2) n w have "c = ?ceil" by metis
  with c(3) have "m_closestHitFraction
      (stepUp_callback ?w example_ghost example_shape example_controller) = 3 / 4"
    by (simp add: sweep_hit_def)
  with n w r h show ?thesis by simp
qed


section \<open>Soft feet in penetration recovery\<close>








section \<open>The deflection loop of the forward step\<close>

lemma stepForward_step_deflected:
  "stepForward_step cb s = deflected_step cb (targetPosition s - currentPosition s)"
  by (simp add: stepForward_step_def deflected_step_def Let_def)

lemma stepForward_loop_length:
  "length (snd (stepForward_loop world g sh n sl2 t)) \<le> n"
  by (induction n arbitrary: sl2 t) (simp_all add: Let_def)

lemma stepForward_loop_butlast:
  "cb \<in> set (butlast (snd (stepForward_loop world g sh n sl2 t))) \<Longrightarrow> hasHit cb"
proof (induction n arbitrary: sl2 t)
  case 0
  then show ?case by simp
next
  case (Suc n)
  then show ?case
    by (auto simp: Let_def split: if_splits)
qed

lemma stepForward_loop_fields:
  "convexShape (fst (stepForward_loop world g sh n sl2 t)) = convexShape t"
  "ghostObject (fst (stepForward_loop world g sh n sl2 t)) = ghostObject t"
  "verticalVelocity (fst (stepForward_loop world g sh n sl2 t)) = verticalVelocity t"
   by (induction n arbitrary: sl2 t; simp add: Let_def stepForward_hit_def)+

lemma stepForward_loop_trace:
  assumes "sl2 = length2 step" and "targetPosition t = currentPosition t + step"
  shows "(\<forall>i < length (snd (stepForward_loop world g sh n sl2 t)).
            MIN_STEP_DISTANCE_SQUARED
              < length2 (fold deflected_step
                  (take i (snd (stepForward_loop world g sh n sl2 t))) step)) \<and>
         ((\<forall>cb \<in> set (snd (stepForward_loop world g sh n sl2 t)). hasHit cb) \<longrightarrow>
            currentPosition (fst (stepForward_loop world g sh n sl2 t)) = currentPosition t \<and>
            targetPosition (fst (stepForward_loop world g sh n sl2 t)) =
              currentPosition t
                + fold deflected_step (snd (stepForward_loop world g sh n sl2 t)) step \<and>
            (length (snd (stepForward_loop world g sh n sl2 t)) < n \<longrightarrow>
               length2 (fold deflected_step (snd (stepForward_loop world g sh n sl2 t)) step)
                 \<le> MIN_STEP_DISTANCE_SQUARED)) \<and>
         ((\<exists>cb \<in> set (snd (stepForward_loop world g sh n sl2 t)). \<not> hasHit cb) \<longrightarrow>
            currentPosition (fst (stepForward_loop world g sh n sl2 t)) =
              targetPosition (fst (stepForward_loop world g sh n sl2 t)) \<and>
            targetPosition (fst (stepForward_loop world g sh n sl2 t)) =
              currentPosition t
                + fold deflected_step
                    (butlast (snd (stepForward_loop world g sh n sl2 t))) step)"
  using assms
proof (induction n arbitrary: sl2 step t)
  case 0
  then show ?case by simp
next
  case (Suc n)
  let ?cb = "stepForward_callback world g sh t"
  show ?case
  proof (cases "sl2 > MIN_STEP_DISTANCE_SQUARED")
    case False
    then show ?thesis using Suc.prems by simp
  next
    case big: True
    show ?thesis
    proof (cases "hasHit ?cb")
      case False
      then show ?thesis using Suc.prems big by (simp add: Let_def)
    next
      case True
      let ?t1 = "stepForward_hit ?cb t"
      let ?step1 = "deflected_step ?cb step"
      have st: "stepForward_step ?cb t = ?step1"
        using Suc.prems(2) by (simp add: stepForward_step_deflected)
      have p1: "length2 (stepForward_step ?cb t) = length2 ?step1"
        by (simp add: st)
      have p2: "targetPosition ?t1 = currentPosition ?t1 + ?step1"
        by (simp add: stepForward_hit_def st)
      have c1: "currentPosition ?t1 = currentPosition t"
        by (simp add: stepForward_hit_def)
      let ?r = "stepForward_loop world g sh n (length2 (stepForward_step ?cb t)) ?t1"
      have e: "stepForward_loop world g sh (Suc n) sl2 t = (fst ?r, ?cb # snd ?r)"
        using big True by (simp add: Let_def)
      note ih = Suc.IH [OF p1 p2, unfolded c1]
      have i: "\<forall>i < length (?cb # snd ?r).
            MIN_STEP_DISTANCE_SQUARED < length2 (fold deflected_step (take i (?cb # snd ?r)) step)"
      proof (intro allI impI)
        fix i assume "i < length (?cb # snd ?r)"
        then show "MIN_STEP_DISTANCE_SQUARED
            < length2 (fold deflected_step (take i (?cb # snd ?r)) step)"
          using ih big Suc.prems(1) by (cases i) auto
      qed
      have bl: "snd ?r \<noteq> [] \<Longrightarrow> butlast (?cb # snd ?r) = ?cb # butlast (snd ?r)"
        by simp
      have ne: "(\<exists>cb \<in> set (snd ?r). \<not> hasHit cb) \<Longrightarrow> snd ?r \<noteq> []"
        by auto
      show ?thesis
        unfolding e using i ih True ne by (auto simp: c1)
    qed
  qed
qed


lemma stepForward_loop_sweeps:
  assumes "targetPosition t = currentPosition t + step"
  shows "\<forall>i < length (snd (stepForward_loop world g sh n (length2 step) t)).
           snd (stepForward_loop world g sh n (length2 step) t) ! i =
             stepForward_callback world g sh
               (t\<lparr>targetPosition := currentPosition t
                    + fold deflected_step
                        (take i (snd (stepForward_loop world g sh n (length2 step) t))) step\<rparr>)"
  using assms
proof (induction n arbitrary: step t)
  case 0
  then show ?case by simp
next
  case (Suc n)
  let ?cb = "stepForward_callback world g sh t"
  have t0: "t\<lparr>targetPosition := currentPosition t + step\<rparr> = t"
    using Suc.prems by simp
  show ?case
  proof (cases "length2 step > MIN_STEP_DISTANCE_SQUARED \<and> hasHit ?cb")
    case False
    then show ?thesis using t0 by (auto simp: Let_def)
  next
    case True
    let ?t1 = "stepForward_hit ?cb t"
    let ?step1 = "deflected_step ?cb step"
    have st: "stepForward_step ?cb t = ?step1"
      using Suc.prems by (simp add: stepForward_step_deflected)
    have p2: "targetPosition ?t1 = currentPosition ?t1 + ?step1"
      by (simp add: stepForward_hit_def st)
    have c1: "currentPosition ?t1 = currentPosition t"
      by (simp add: stepForward_hit_def)
    have u: "?t1\<lparr>targetPosition := x\<rparr> = t\<lparr>targetPosition := x\<rparr>" for x
      by (simp add: stepForward_hit_def)
    let ?r = "stepForward_loop world g sh n (length2 ?step1) ?t1"
    have e: "stepForward_loop world g sh (Suc n) (length2 step) t = (fst ?r, ?cb # snd ?r)"
      using True by (simp add: Let_def st)
    note ih = Suc.IH [OF p2, unfolded c1 u]
    show ?thesis
      unfolding e
    proof (intro allI impI)
      fix i assume "i < length (snd (fst ?r, ?cb # snd ?r))"
      then show "snd (fst ?r, ?cb # snd ?r) ! i =
          stepForward_callback world g sh
            (t\<lparr>targetPosition := currentPosition t
                + fold deflected_step (take i (snd (fst ?r, ?cb # snd ?r))) step\<rparr>)"
        using ih t0 by (cases i) auto
    qed
  qed
qed

lemma stepForward_loop_hit:
  assumes "sl2 > MIN_STEP_DISTANCE_SQUARED" and "stepForward_callback world g sh s = cb"
    and "hasHit cb"
  shows "stepForward_loop world g sh (Suc n) sl2 s =
           (fst (stepForward_loop world g sh n (length2 (stepForward_step cb s))
                   (stepForward_hit cb s)),
            cb # snd (stepForward_loop world g sh n (length2 (stepForward_step cb s))
                        (stepForward_hit cb s)))"
  using assms by (simp add: Let_def)

lemma stepForward_loop_miss:
  assumes "sl2 > MIN_STEP_DISTANCE_SQUARED" and "stepForward_callback world g sh s = cb"
    and "\<not> hasHit cb"
  shows "stepForward_loop world g sh (Suc n) sl2 s =
           (s\<lparr>currentPosition := targetPosition s\<rparr>, [cb])"
  using assms by (simp add: Let_def)

lemma stepForward_loop_small:
  assumes "\<not> sl2 > MIN_STEP_DISTANCE_SQUARED"
  shows "stepForward_loop world g sh n sl2 s = (s, [])"
  using assms by (cases n) simp_all

lemma one_hit_world_first:
  assumes "ghostPtr g = 1" and "currentPosition s = btVector3 0 (9 / 10) 0"
    and "targetPosition s = btVector3 1 (9 / 10) 0"
  shows "stepForward_callback one_hit_world g sh s =
     \<lparr>m_closestHitFraction = 1 / 2, m_hitObject = Some 7,
      m_hitNormalWorld = btVector3 (- 1) 0 0, m_hitPointWorld = btVector3 0 0 0\<rparr>"
  using assms
  by (simp add: stepForward_callback_def one_hit_world_def sweep_hit_def Let_def
      NotMeConvex_addSingleResult_def ClosestConvexResultCallback_addSingleResult_def
      new_callback_def worldNormal_def floor_object_def minus_vec3_def dot_def)

lemma one_hit_world_other:
  assumes "targetPosition s \<noteq> btVector3 1 (9 / 10) 0"
  shows "stepForward_callback one_hit_world g sh s = new_callback"
  using assms
  by (simp add: stepForward_callback_def one_hit_world_def Let_def)

lemma stepForward_one_hit:
  "stepForward one_hit_world (btVector3 1 0 0) example_controller =
     Inr (example_controller\<lparr>targetPosition := btVector3 (3 / 2) (9 / 10) 0,
            currentPosition := btVector3 (3 / 2) (9 / 10) 0\<rparr>,
          [\<lparr>m_closestHitFraction = 1 / 2, m_hitObject = Some 7,
            m_hitNormalWorld = btVector3 (- 1) 0 0, m_hitPointWorld = btVector3 0 0 0\<rparr>,
           new_callback])"
proof -
  let ?cb = "\<lparr>m_closestHitFraction = 1 / 2, m_hitObject = Some 7,
      m_hitNormalWorld = btVector3 (- 1) 0 0, m_hitPointWorld = btVector3 0 0 0\<rparr>"
  let ?sh1 = "example_shape\<lparr>margin := margin example_shape + 2 / 100\<rparr>"
  let ?s2 = "example_controller\<lparr>targetPosition := btVector3 1 (9 / 10) 0,
      convexShape := Some ?sh1\<rparr>"
  have st: "stepForward_step ?cb ?s2 = btVector3 (3 / 2) 0 0"
    by (simp add: stepForward_step_def example_controller_fields Let_def minus_vec3_def
        plus_vec3_def scaleR_vec3_def dot_def)
  have l1: "stepForward_loop one_hit_world example_ghost ?sh1 (Suc 9) 1 ?s2 =
      (fst (stepForward_loop one_hit_world example_ghost ?sh1 9
              (length2 (stepForward_step ?cb ?s2)) (stepForward_hit ?cb ?s2)),
       ?cb # snd (stepForward_loop one_hit_world example_ghost ?sh1 9
              (length2 (stepForward_step ?cb ?s2)) (stepForward_hit ?cb ?s2)))"
    by (rule stepForward_loop_hit)
      (simp_all add: MIN_STEP_DISTANCE_SQUARED_def one_hit_world_first example_ghost_fields
        example_controller_fields hasHit_def)
  have h2: "stepForward_hit ?cb ?s2 =
      example_controller\<lparr>targetPosition := btVector3 (3 / 2) (9 / 10) 0,
        convexShape := Some ?sh1\<rparr>"
    using st by (simp add: stepForward_hit_def example_controller_fields plus_vec3_def)
  have l2: "stepForward_loop one_hit_world example_ghost ?sh1 (Suc 8) (9 / 4)
        (example_controller\<lparr>targetPosition := btVector3 (3 / 2) (9 / 10) 0,
           convexShape := Some ?sh1\<rparr>) =
      (example_controller\<lparr>targetPosition := btVector3 (3 / 2) (9 / 10) 0,
           convexShape := Some ?sh1,
           currentPosition := btVector3 (3 / 2) (9 / 10) 0\<rparr>, [new_callback])"
    by (rule stepForward_loop_miss [THEN trans])
      (simp_all add: MIN_STEP_DISTANCE_SQUARED_def one_hit_world_other hasHit_def
        new_callback_def)
  have n: "(10::nat) = Suc 9" "(9::nat) = Suc 8" by simp_all
  have len: "length2 (btVector3 (3 / 2) 0 0) = 9 / 4" "length2 (btVector3 1 0 0) = 1"
    by (simp_all add: length2_def dot_def)
  have "stepForward_loop one_hit_world example_ghost ?sh1 10 1 ?s2 =
      (example_controller\<lparr>targetPosition := btVector3 (3 / 2) (9 / 10) 0,
           convexShape := Some ?sh1,
           currentPosition := btVector3 (3 / 2) (9 / 10) 0\<rparr>, [?cb, new_callback])"
    using st h2 l2 l1 by (simp add: length2_def dot_def del: stepForward_loop.simps)
  then show ?thesis
    by (simp add: stepForward_def example_controller_fields Let_def plus_vec3_def
        minus_vec3_def length2_def dot_def del: stepForward_loop.simps)
qed


text \<open>
  Along the hit normal the deflected step is the old one scaled by \<open>1 + (1 - f) |n|\<^sup>2\<close>:
  for a hit fraction below 1 its component along the normal keeps its sign and grows.
\<close>

lemma deflected_step_normal_component:
  "dot (deflected_step cb step) (m_hitNormalWorld cb) =
     (1 + (1 - m_closestHitFraction cb) * length2 (m_hitNormalWorld cb))
       * dot step (m_hitNormalWorld cb)"
  by (simp add: deflected_step_def dot_def length2_def plus_vec3_def scaleR_vec3_def
      algebra_simps)


text \<open>
  Claim C6. A call of \<^verbatim>\<open>stepForward\<close> on a controller with its ghost object and shape
  returns after at most 10 sweeps. Sweep number \<open>i\<close> is made only while the squared length
  of the remaining step exceeds \<open>1e-6\<close>, from \<open>currentPosition\<close> to \<open>currentPosition\<close> plus
  the remaining step, where the remaining step is the movement deflected by the hits
  before it: each hit with normal \<open>n\<close> and fraction \<open>f\<close> replaces the remaining step \<open>s\<close>
  by \<open>s + (s \<cdot> n) (1 - f) n\<close>, sets \<open>targetPosition\<close> to \<open>currentPosition\<close> plus the new
  step and leaves \<open>currentPosition\<close> unchanged. Only the last sweep can be without a hit:
  then, and only then, \<open>currentPosition\<close> is assigned \<open>targetPosition\<close>. If every sweep had
  a hit and fewer than 10 were made, the loop stopped because the squared length of the
  remaining step was at most \<open>1e-6\<close>. The shape's margin is restored.
\<close>

theorem C6_stepForward:
  assumes "ghostObject s = Some g" and "convexShape s = Some sh"
  shows "\<exists>s' sweeps. stepForward world movement s = Inr (s', sweeps) \<and>
           length sweeps \<le> 10 \<and>
           (\<forall>i < length sweeps.
              MIN_STEP_DISTANCE_SQUARED
                < length2 (fold deflected_step (take i sweeps) movement) \<and>
              sweeps ! i =
                stepForward_callback world g (sh\<lparr>margin := margin sh + addedMargin s\<rparr>)
                  (s\<lparr>targetPosition := currentPosition s
                        + fold deflected_step (take i sweeps) movement\<rparr>)) \<and>
           (\<forall>cb \<in> set (butlast sweeps). hasHit cb) \<and>
           ((\<forall>cb \<in> set sweeps. hasHit cb) \<longrightarrow>
              currentPosition s' = currentPosition s \<and>
              targetPosition s' = currentPosition s + fold deflected_step sweeps movement \<and>
              (length sweeps < 10 \<longrightarrow>
                 length2 (fold deflected_step sweeps movement) \<le> MIN_STEP_DISTANCE_SQUARED)) \<and>
           ((\<exists>cb \<in> set sweeps. \<not> hasHit cb) \<longrightarrow>
              currentPosition s' = targetPosition s' \<and>
              targetPosition s' =
                currentPosition s + fold deflected_step (butlast sweeps) movement) \<and>
           convexShape s' = Some sh"
proof -
  let ?sh1 = "sh\<lparr>margin := margin sh + addedMargin s\<rparr>"
  let ?s2 = "s\<lparr>targetPosition := currentPosition s + movement, convexShape := Some ?sh1\<rparr>"
  let ?r = "stepForward_loop world g ?sh1 10 (length2 movement) ?s2"
  have tp: "targetPosition ?s2 = currentPosition ?s2 + movement" by simp
  have e: "stepForward world movement s =
             Inr ((fst ?r)\<lparr>convexShape := Some (?sh1\<lparr>margin := margin sh\<rparr>)\<rparr>, snd ?r)"
    using assms by (simp add: stepForward_def Let_def)
  have m: "?sh1\<lparr>margin := margin sh\<rparr> = sh" by simp
  have cbs: "stepForward_callback world g ?sh1 (?s2\<lparr>targetPosition := x\<rparr>) =
             stepForward_callback world g ?sh1 (s\<lparr>targetPosition := x\<rparr>)" for x
    by (simp add: stepForward_callback_def)
  note tr = stepForward_loop_trace [OF refl tp, of world g ?sh1 10]
  note sw = stepForward_loop_sweeps [OF tp, of world g ?sh1 10, unfolded cbs]
  show ?thesis
    unfolding e m
    apply (intro exI conjI)
         apply (rule refl)
        apply (simp add: stepForward_loop_length)
    using tr sw apply simp
    using stepForward_loop_butlast [of _ world g ?sh1 10 "length2 movement" ?s2] apply simp
    using tr apply simp
    using tr apply simp
    apply simp
    done
qed


theorem C6_stepForward_witness:
  "ghostObject example_controller = Some example_ghost \<and>
   convexShape example_controller = Some example_shape \<and>
   (\<exists>s' sweeps.
      stepForward one_hit_world (btVector3 1 0 0) example_controller = Inr (s', sweeps) \<and>
      length sweeps = 2 \<and> hasHit (sweeps ! 0) \<and> \<not> hasHit (sweeps ! 1) \<and>
      currentPosition s' = btVector3 (3 / 2) (9 / 10) 0 \<and>
      targetPosition s' = btVector3 (3 / 2) (9 / 10) 0 \<and>
      convexShape s' = Some example_shape)"
proof -
  let ?cb = "\<lparr>m_closestHitFraction = 1 / 2, m_hitObject = Some 7,
      m_hitNormalWorld = btVector3 (- 1) 0 0, m_hitPointWorld = btVector3 0 0 0\<rparr>"
  have g: "ghostObject example_controller = Some example_ghost"
    and sh: "convexShape example_controller = Some example_shape"
    by (simp_all add: example_controller_fields)
  from C6_stepForward [OF g sh, of one_hit_world "btVector3 1 0 0"]
  obtain s' sweeps where
    e: "stepForward one_hit_world (btVector3 1 0 0) example_controller = Inr (s', sweeps)"
    and m: "(\<exists>cb \<in> set sweeps. \<not> hasHit cb) \<longrightarrow>
              currentPosition s' = targetPosition s' \<and>
              targetPosition s' =
                currentPosition example_controller
                  + fold deflected_step (butlast sweeps) (btVector3 1 0 0)"
    and c: "convexShape s' = Some example_shape"
    by blast
  from e stepForward_one_hit have sw: "sweeps = [?cb, new_callback]" by simp
  have d: "deflected_step ?cb (btVector3 1 0 0) = btVector3 (3 / 2) 0 0"
    by (simp add: deflected_step_def dot_def plus_vec3_def scaleR_vec3_def)
  from m sw d have "currentPosition s' = btVector3 (3 / 2) (9 / 10) 0 \<and>
      targetPosition s' = btVector3 (3 / 2) (9 / 10) 0"
    by (simp add: hasHit_def new_callback_def example_controller_fields plus_vec3_def)
  with g sh e c sw show ?thesis
    by (simp add: hasHit_def new_callback_def)
qed


section \<open>The vertical velocity after a player step\<close>

text \<open>Each phase returns when the ghost object and the shape exist, and says what it does
  to the vertical velocity and the two speed limits.\<close>

lemma scanDown_returns:
  assumes "ghostObject s = Some g"
  shows "\<exists>s'. scanDown world s = Inr s' \<and>
           verticalVelocity s' = verticalVelocity s \<and>
           maxFallSpeed s' = maxFallSpeed s \<and> jumpSpeed s' = jumpSpeed s \<and>
           ghostObject s' = ghostObject s \<and> convexShape s' = convexShape s"
  using assms by (simp add: scanDown_def Let_def)

lemma stepUp_returns:
  assumes "ghostObject s = Some g" and "convexShape s = Some sh"
  shows "\<exists>s'. stepUp world s = Inr s' \<and>
           (verticalVelocity s' = verticalVelocity s \<or> verticalVelocity s' = 0) \<and>
           maxFallSpeed s' = maxFallSpeed s \<and> jumpSpeed s' = jumpSpeed s \<and>
           ghostObject s' = ghostObject s \<and> convexShape s' = convexShape s"
  using assms by (simp add: stepUp_def Let_def)

lemma stepForward_loop_speeds:
  "maxFallSpeed (fst (stepForward_loop world g sh n sl2 t)) = maxFallSpeed t"
  "jumpSpeed (fst (stepForward_loop world g sh n sl2 t)) = jumpSpeed t"
   by (induction n arbitrary: sl2 t; simp add: Let_def stepForward_hit_def)+

lemma stepForward_returns:
  assumes "ghostObject s = Some g" and "convexShape s = Some sh"
  shows "\<exists>s' sweeps. stepForward world movement s = Inr (s', sweeps) \<and>
           verticalVelocity s' = verticalVelocity s \<and>
           maxFallSpeed s' = maxFallSpeed s \<and> jumpSpeed s' = jumpSpeed s \<and>
           ghostObject s' = ghostObject s \<and> convexShape s' = convexShape s"
  using assms
  by (simp add: stepForward_def Let_def stepForward_loop_fields stepForward_loop_speeds
      del: stepForward_loop.simps)

lemma stepDown_returns:
  assumes "ghostObject s = Some g" and "convexShape s = Some sh"
  shows "\<exists>s' sweeps. stepDown world dt s = Inr (s', sweeps) \<and>
           (verticalVelocity s' = verticalVelocity s \<or> verticalVelocity s' = 0) \<and>
           maxFallSpeed s' = maxFallSpeed s \<and> jumpSpeed s' = jumpSpeed s \<and>
           ghostObject s' = ghostObject s \<and> convexShape s' = convexShape s"
  using assms by (simp add: stepDown_def Let_def)

text \<open>The four phases in sequence, as \<^verbatim>\<open>playerStep\<close> runs them.\<close>

lemma playerStep_phases:
  assumes "ghostObject s2 = Some g" and "convexShape s2 = Some sh"
  shows "\<exists>s3 s4 r6 r7.
           scanDown world s2 = Inr s3 \<and> stepUp world s3 = Inr s4 \<and>
           stepForward world (mv s4)
             (s4\<lparr>velocityTimeInterval := vti s4, stepDt := sd s4\<rparr>) = Inr r6 \<and>
           stepDown world dt (fst r6) = Inr r7 \<and>
           ghostObject (fst r7) = Some g \<and>
           (verticalVelocity (fst r7) = verticalVelocity s2 \<or> verticalVelocity (fst r7) = 0) \<and>
           maxFallSpeed (fst r7) = maxFallSpeed s2 \<and> jumpSpeed (fst r7) = jumpSpeed s2"
proof -
  from scanDown_returns [OF assms(1), of world] obtain s3 where
    s3: "scanDown world s2 = Inr s3" "verticalVelocity s3 = verticalVelocity s2"
      "maxFallSpeed s3 = maxFallSpeed s2" "jumpSpeed s3 = jumpSpeed s2"
      "ghostObject s3 = Some g" "convexShape s3 = Some sh"
    using assms by auto
  from stepUp_returns [OF s3(5,6), of world] obtain s4 where
    s4: "stepUp world s3 = Inr s4"
      "verticalVelocity s4 = verticalVelocity s3 \<or> verticalVelocity s4 = 0"
      "maxFallSpeed s4 = maxFallSpeed s3" "jumpSpeed s4 = jumpSpeed s3"
      "ghostObject s4 = Some g" "convexShape s4 = Some sh"
    using s3 by auto
  let ?s5 = "s4\<lparr>velocityTimeInterval := vti s4, stepDt := sd s4\<rparr>"
  have g5: "ghostObject ?s5 = Some g" "convexShape ?s5 = Some sh"
    using s4 by simp_all
  from stepForward_returns [OF g5, of world "mv s4"] obtain s6 sw6 where
    s6: "stepForward world (mv s4) ?s5 = Inr (s6, sw6)"
      "verticalVelocity s6 = verticalVelocity s4"
      "maxFallSpeed s6 = maxFallSpeed s4" "jumpSpeed s6 = jumpSpeed s4"
      "ghostObject s6 = Some g" "convexShape s6 = Some sh"
    using s4 by auto
  from stepDown_returns [OF s6(5,6), of world dt] obtain s7 sw7 where
    s7: "stepDown world dt s6 = Inr (s7, sw7)"
      "verticalVelocity s7 = verticalVelocity s6 \<or> verticalVelocity s7 = 0"
      "maxFallSpeed s7 = maxFallSpeed s6" "jumpSpeed s7 = jumpSpeed s6"
      "ghostObject s7 = Some g"
    using s6 by auto
  show ?thesis
    apply (rule exI [of _ s3], rule exI [of _ s4], rule exI [of _ "(s6, sw6)"],
        rule exI [of _ "(s7, sw7)"])
    using s3 s4 s6 s7 by auto
qed

lemma updateFallVelocity_clamped:
  assumes "\<not> isHovering s" and "0 \<le> maxFallSpeed s" and "0 \<le> jumpSpeed s"
  shows "- maxFallSpeed s \<le> verticalVelocity (updateFallVelocity dt s)"
    and "verticalVelocity (updateFallVelocity dt s) \<le> jumpSpeed s"
  using assms by (auto simp: updateFallVelocity_def Let_def)

text \<open>
  In the hover branch the velocity is multiplied by \<open>1 - dt\<close>: for \<open>0 \<le> dt \<le> 1\<close> a velocity
  within the limits stays within them.
\<close>

lemma updateFallVelocity_in_range:
  assumes "0 \<le> maxFallSpeed s" and "0 \<le> jumpSpeed s"
    and "isHovering s \<longrightarrow>
           0 \<le> dt \<and> dt \<le> 1 \<and>
           - maxFallSpeed s \<le> verticalVelocity s \<and> verticalVelocity s \<le> jumpSpeed s"
  shows "- maxFallSpeed s \<le> verticalVelocity (updateFallVelocity dt s)"
    and "verticalVelocity (updateFallVelocity dt s) \<le> jumpSpeed s"
proof -
  have "- maxFallSpeed s \<le> verticalVelocity (updateFallVelocity dt s) \<and>
        verticalVelocity (updateFallVelocity dt s) \<le> jumpSpeed s"
  proof (cases "isHovering s")
    case False
    then show ?thesis
      using updateFallVelocity_clamped [OF False assms(1,2)] by simp
  next
    case True
    with assms(3) have d: "0 \<le> 1 - dt" "1 - dt \<le> 1"
      and v: "- maxFallSpeed s \<le> verticalVelocity s" "verticalVelocity s \<le> jumpSpeed s"
      by simp_all
    have e: "verticalVelocity (updateFallVelocity dt s) = verticalVelocity s * (1 - dt)"
      using True by (simp add: updateFallVelocity_def Let_def)
    have up: "verticalVelocity s * (1 - dt) \<le> jumpSpeed s"
    proof -
      have "verticalVelocity s * (1 - dt) \<le> jumpSpeed s * (1 - dt)"
        using v(2) d(1) by (rule mult_right_mono)
      also have "\<dots> \<le> jumpSpeed s * 1"
        using d(2) assms(2) by (rule mult_left_mono)
      finally show ?thesis by simp
    qed
    have lo: "- maxFallSpeed s \<le> verticalVelocity s * (1 - dt)"
    proof -
      have "maxFallSpeed s * (1 - dt) \<le> maxFallSpeed s * 1"
        using d(2) assms(1) by (rule mult_left_mono)
      then have "- maxFallSpeed s \<le> (- maxFallSpeed s) * (1 - dt)" by simp
      also have "\<dots> \<le> verticalVelocity s * (1 - dt)"
        using v(1) d(1) by (rule mult_right_mono)
      finally show ?thesis .
    qed
    from lo up show ?thesis by (simp add: e)
  qed
  then show "- maxFallSpeed s \<le> verticalVelocity (updateFallVelocity dt s)"
    and "verticalVelocity (updateFallVelocity dt s) \<le> jumpSpeed s"
    by simp_all
qed

lemma updateFallVelocity_fields:
  "ghostObject (updateFallVelocity dt s) = ghostObject s"
  "convexShape (updateFallVelocity dt s) = convexShape s"
  "maxFallSpeed (updateFallVelocity dt s) = maxFallSpeed s"
  "jumpSpeed (updateFallVelocity dt s) = jumpSpeed s"
  by (auto simp: updateFallVelocity_def Let_def)

lemma stepUp_callback_no_contacts:
  "stepUp_callback (const_world rs []) g sh s = new_callback"
  by (simp add: stepUp_callback_def const_world_def Let_def)

lemma stepForward_no_move:
  assumes "convexShape s = Some sh" and "length2 movement \<le> MIN_STEP_DISTANCE_SQUARED"
    and "ghostObject s = Some g"
  shows "stepForward world movement s =
           Inr (s\<lparr>targetPosition := currentPosition s + movement\<rparr>, [])"
  using assms
  by (simp add: stepForward_def Let_def stepForward_loop_small del: stepForward_loop.simps)

text \<open>
  Claim C5, as stated, fails: a controller hovering when \<^verbatim>\<open>playerStep\<close> is entered takes the
  hover branch, which multiplies the velocity by \<open>1 - dt\<close> and does not clamp, and
  \<^verbatim>\<open>scanDown\<close> can clear \<open>isHovering\<close> afterwards. With the constructor's limits
  (\<open>maxFallSpeed = 55\<close>, \<open>jumpSpeed = 5\<close>), a hovering controller with vertical velocity 5,
  a floor 2.09 below and \<open>dt = 13\<close>: the hover relaxation gives \<open>5 \<cdot> (1 - 13) = -60\<close>, the
  scan clears \<open>isHovering\<close>, no sweep has a hit, and \<^verbatim>\<open>playerStep\<close> returns not hovering
  with vertical velocity \<open>-60 < -55\<close>.
\<close>

theorem C5_hover_cleared_counterexample:
  "enabled (example_controller\<lparr>isHovering := True, verticalVelocity := 5, isJumping := True\<rparr>) \<and>
   maxFallSpeed (example_controller\<lparr>isHovering := True, verticalVelocity := 5, isJumping := True\<rparr>) = 55 \<and>
   jumpSpeed (example_controller\<lparr>isHovering := True, verticalVelocity := 5, isJumping := True\<rparr>) = 5 \<and>
   playerStep (const_world [floor_ray_hit (1 / 10)] []) 13
     (example_controller\<lparr>isHovering := True, verticalVelocity := 5, isJumping := True\<rparr>) =
   Inr (example_controller
         \<lparr>isHovering := False, verticalVelocity := - 60, isJumping := True,
          verticalOffset := - 780, lastStepUp := 55 / 100,
          velocityTimeInterval := - 13, stepDt := 13,
          targetPosition := btVector3 0 (- (7791 / 10)) 0,
          currentPosition := btVector3 0 (- (7791 / 10)) 0,
          ghostObject := Some (example_ghost\<lparr>origin := btVector3 0 (- (7791 / 10)) 0\<rparr>)\<rparr>)"
proof -
  let ?w = "const_world [floor_ray_hit (1 / 10)] []"
  let ?s = "example_controller\<lparr>isHovering := True, verticalVelocity := 5, isJumping := True\<rparr>"
  let ?s2 = "?s\<lparr>verticalVelocity := - 60, verticalOffset := - 780\<rparr>"
  have u: "updateFallVelocity 13 ?s = ?s2"
    by (simp add: updateFallVelocity_def Let_def)
  let ?s3 = "?s2\<lparr>isHovering := False\<rparr>"
  have sd: "scanDown ?w ?s2 = Inr ?s3"
    by (simp add: scanDown_def Let_def example_controller_fields example_ghost_fields
        scanDown_callback_floor hasHit_def)
  let ?s4 = "?s3\<lparr>targetPosition := btVector3 0 (145 / 100) 0,
      currentPosition := btVector3 0 (145 / 100) 0, lastStepUp := 55 / 100\<rparr>"
  have su: "stepUp ?w ?s3 = Inr ?s4"
    by (simp add: stepUp_def Let_def example_controller_fields stepUp_callback_no_contacts
        hasHit_def new_callback_def plus_vec3_def scaleR_vec3_def)
  let ?s5 = "?s4\<lparr>velocityTimeInterval := - 13, stepDt := 13\<rparr>"
  have sf: "stepForward ?w (0 *\<^sub>R walkDirection ?s5) ?s5 = Inr (?s5, [])"
    by (subst stepForward_no_move [where sh = example_shape and g = example_ghost])
      (simp_all add: example_controller_fields MIN_STEP_DISTANCE_SQUARED_def length2_def
        dot_def scaleR_vec3_def plus_vec3_def)
  let ?s7 = "?s5\<lparr>targetPosition := btVector3 0 (- (7791 / 10)) 0,
      currentPosition := btVector3 0 (- (7791 / 10)) 0\<rparr>"
  have sdn: "stepDown ?w 13 ?s5 = Inr (?s7, [new_callback])"
    by (simp add: stepDown_def Let_def example_controller_fields stepDown_callback_no_contacts
        hasHit_def new_callback_def plus_vec3_def scaleR_vec3_def)
  show ?thesis
    using u sd su sf sdn
    by (simp add: playerStep_def Let_def example_controller_fields
        del: stepForward_loop.simps)
qed

text \<open>
  The same scene for any \<open>dt\<close> and any entry velocity \<open>v\<close>: the controller hovers on entry,
  the scan clears \<open>isHovering\<close>, and \<^verbatim>\<open>playerStep\<close> returns not hovering with velocity
  \<open>v \<cdot> (1 - dt)\<close>. So both bounds of the amended claim are needed: with \<open>dt = 2\<close> the
  entry velocity \<open>-55\<close>, within the limits, returns as \<open>55 > 5\<close>; with \<open>dt = 1/60\<close> the
  entry velocity 100, outside the limits, returns as \<open>295/3 > 5\<close>.
\<close>

lemma playerStep_hover_cleared:
  "\<exists>s'. playerStep (const_world [floor_ray_hit (1 / 10)] []) dt
          (example_controller\<lparr>isHovering := True, verticalVelocity := v, isJumping := True\<rparr>)
        = Inr s' \<and>
       \<not> isHovering s' \<and> verticalVelocity s' = v * (1 - dt)"
proof -
  let ?w = "const_world [floor_ray_hit (1 / 10)] []"
  let ?s = "example_controller\<lparr>isHovering := True, verticalVelocity := v, isJumping := True\<rparr>"
  let ?s2 = "?s\<lparr>verticalVelocity := v * (1 - dt), verticalOffset := v * (1 - dt) * dt\<rparr>"
  have u: "updateFallVelocity dt ?s = ?s2"
    by (simp add: updateFallVelocity_def Let_def)
  let ?s3 = "?s2\<lparr>isHovering := False\<rparr>"
  have sd: "scanDown ?w ?s2 = Inr ?s3"
    by (simp add: scanDown_def Let_def example_controller_fields example_ghost_fields
        scanDown_callback_floor hasHit_def)
  let ?s4 = "?s3\<lparr>targetPosition := btVector3 0 (145 / 100) 0,
      currentPosition := btVector3 0 (145 / 100) 0, lastStepUp := 55 / 100\<rparr>"
  have su: "stepUp ?w ?s3 = Inr ?s4"
    by (simp add: stepUp_def Let_def example_controller_fields stepUp_callback_no_contacts
        hasHit_def new_callback_def plus_vec3_def scaleR_vec3_def)
  let ?s5 = "?s4\<lparr>velocityTimeInterval := 0 - dt, stepDt := 0 + dt\<rparr>"
  have sf: "stepForward ?w (btVector3 0 0 0) ?s5 = Inr (?s5, [])"
    by (subst stepForward_no_move [where sh = example_shape and g = example_ghost])
      (simp_all add: example_controller_fields MIN_STEP_DISTANCE_SQUARED_def length2_def
        dot_def plus_vec3_def)
  have "\<exists>s7. stepDown ?w dt ?s5 = Inr (s7, [new_callback]) \<and>
      \<not> isHovering s7 \<and> verticalVelocity s7 = v * (1 - dt) \<and>
      ghostObject s7 = Some example_ghost"
    by (simp add: stepDown_def Let_def example_controller_fields stepDown_callback_no_contacts
        hasHit_def new_callback_def)
  then obtain s7 where sdn: "stepDown ?w dt ?s5 = Inr (s7, [new_callback])"
    and p: "\<not> isHovering s7" "verticalVelocity s7 = v * (1 - dt)"
      "ghostObject s7 = Some example_ghost"
    by blast
  have "playerStep ?w dt ?s =
      Inr (s7\<lparr>ghostObject := Some (example_ghost\<lparr>origin := currentPosition s7,
                 rotation := rotation example_ghost\<rparr>)\<rparr>)"
    using u sd su sf sdn p(3)
    by (simp add: playerStep_def Let_def example_controller_fields scaleR_vec3_def
        del: stepForward_loop.simps)
  with p show ?thesis by simp
qed


lemma playerStep_hover_bounds_needed:
  "(\<exists>s'. playerStep (const_world [floor_ray_hit (1 / 10)] []) 2
          (example_controller\<lparr>isHovering := True, verticalVelocity := - 55, isJumping := True\<rparr>)
        = Inr s' \<and> \<not> isHovering s' \<and> verticalVelocity s' = 55) \<and>
   (\<exists>s'. playerStep (const_world [floor_ray_hit (1 / 10)] []) (1 / 60)
          (example_controller\<lparr>isHovering := True, verticalVelocity := 100, isJumping := True\<rparr>)
        = Inr s' \<and> \<not> isHovering s' \<and> verticalVelocity s' = 295 / 3)"
  using playerStep_hover_cleared [of 2 "- 55"] playerStep_hover_cleared [of "1 / 60" 100]
  by simp

text \<open>
  Claim C5, amended. For every call of \<^verbatim>\<open>playerStep(dt)\<close> on an enabled controller (with its
  ghost object and shape) with \<open>maxFallSpeed \<ge> 0\<close> and \<open>jumpSpeed \<ge> 0\<close>, and such that, if
  \<open>isHovering\<close> is true when \<^verbatim>\<open>playerStep\<close> is entered, \<open>0 \<le> dt \<le> 1\<close> and \<open>verticalVelocity\<close>
  lies within \<open>[-maxFallSpeed, +jumpSpeed]\<close> at entry: \<^verbatim>\<open>playerStep\<close> returns, and on return
  \<open>verticalVelocity\<close> lies within \<open>[-maxFallSpeed, +jumpSpeed]\<close>; in particular it does
  whenever \<open>isHovering\<close> is false on return, whether the controller was hovering on entry
  and the scan cleared it, or was not hovering on entry (then for every \<open>dt\<close>).
\<close>

theorem C5_velocity_clamp:
  assumes "enabled s" and "ghostObject s = Some g" and "convexShape s = Some sh"
    and "0 \<le> maxFallSpeed s" and "0 \<le> jumpSpeed s"
    and "isHovering s \<longrightarrow>
           0 \<le> dt \<and> dt \<le> 1 \<and>
           - maxFallSpeed s \<le> verticalVelocity s \<and> verticalVelocity s \<le> jumpSpeed s"
  shows "\<exists>s'. playerStep world dt s = Inr s' \<and>
           - maxFallSpeed s' \<le> verticalVelocity s' \<and> verticalVelocity s' \<le> jumpSpeed s' \<and>
           maxFallSpeed s' = maxFallSpeed s \<and> jumpSpeed s' = jumpSpeed s"
proof -
  define s2 where "s2 = updateFallVelocity dt s"
  have c: "- maxFallSpeed s \<le> verticalVelocity s2" "verticalVelocity s2 \<le> jumpSpeed s"
    unfolding s2_def by (rule updateFallVelocity_in_range [OF assms(4,5,6)])+
  have f: "ghostObject s2 = Some g" "convexShape s2 = Some sh"
    "maxFallSpeed s2 = maxFallSpeed s" "jumpSpeed s2 = jumpSpeed s"
    using assms(2,3) by (simp_all add: s2_def updateFallVelocity_fields)
  define mv where "mv = (\<lambda>s4::character_controller. (if dt < velocityTimeInterval s4 then dt
                                else velocityTimeInterval s4) *\<^sub>R walkDirection s4)"
  from playerStep_phases [OF f(1,2), where world = world and mv = mv and dt = dt
      and vti = "\<lambda>s4. velocityTimeInterval s4 - dt" and sd = "\<lambda>s4. stepDt s4 + dt"]
  obtain s3 s4 r6 r7 where
    p: "scanDown world s2 = Inr s3" "stepUp world s3 = Inr s4"
      "stepForward world (mv s4)
         (s4\<lparr>velocityTimeInterval := velocityTimeInterval s4 - dt,
             stepDt := stepDt s4 + dt\<rparr>) = Inr r6"
      "stepDown world dt (fst r6) = Inr r7"
      "ghostObject (fst r7) = Some g"
    and v: "verticalVelocity (fst r7) = verticalVelocity s2 \<or> verticalVelocity (fst r7) = 0"
      "maxFallSpeed (fst r7) = maxFallSpeed s2" "jumpSpeed (fst r7) = jumpSpeed s2"
    by (elim exE conjE) blast
  have e: "playerStep world dt s =
      Inr ((fst r7)\<lparr>ghostObject :=
             Some (g\<lparr>origin := currentPosition (fst r7), rotation := rotation g\<rparr>)\<rparr>)"
    using assms(1) f(1) p
    by (simp add: playerStep_def Let_def s2_def [symmetric] mv_def
        del: stepForward_loop.simps)
  show ?thesis
    unfolding e using v c f(3,4) assms(4,5) by auto
qed

theorem C5_velocity_clamp_witness:
  "enabled (example_controller\<lparr>isHovering := True, verticalVelocity := 5, isJumping := True\<rparr>) \<and>
   isHovering (example_controller\<lparr>isHovering := True, verticalVelocity := 5, isJumping := True\<rparr>) \<and>
   (0::real) \<le> 1 / 60 \<and> (1::real) / 60 \<le> 1 \<and>
   - maxFallSpeed (example_controller\<lparr>isHovering := True, verticalVelocity := 5, isJumping := True\<rparr>)
      \<le> verticalVelocity
          (example_controller\<lparr>isHovering := True, verticalVelocity := 5, isJumping := True\<rparr>) \<and>
   verticalVelocity (example_controller\<lparr>isHovering := True, verticalVelocity := 5, isJumping := True\<rparr>)
      \<le> jumpSpeed
          (example_controller\<lparr>isHovering := True, verticalVelocity := 5, isJumping := True\<rparr>) \<and>
   (\<exists>s'. playerStep (const_world [floor_ray_hit (1 / 10)] []) (1 / 60)
           (example_controller\<lparr>isHovering := True, verticalVelocity := 5, isJumping := True\<rparr>)
         = Inr s' \<and>
         \<not> isHovering s' \<and> verticalVelocity s' = 59 / 12 \<and>
         - 55 \<le> verticalVelocity s' \<and> verticalVelocity s' \<le> 5) \<and>
   \<not> isHovering (example_controller\<lparr>verticalVelocity := - 55\<rparr>) \<and>
   (\<exists>s'. playerStep (const_world [] []) 1 (example_controller\<lparr>verticalVelocity := - 55\<rparr>)
           = Inr s' \<and>
         - 55 \<le> verticalVelocity s' \<and> verticalVelocity s' \<le> 5)"
proof -
  let ?h = "example_controller\<lparr>isHovering := True, verticalVelocity := 5, isJumping := True\<rparr>"
  let ?n = "example_controller\<lparr>verticalVelocity := - 55\<rparr>"
  let ?w = "const_world [floor_ray_hit (1 / 10)] []"
  have h: "enabled ?h" "ghostObject ?h = Some example_ghost"
    "convexShape ?h = Some example_shape" "0 \<le> maxFallSpeed ?h" "0 \<le> jumpSpeed ?h"
    "isHovering ?h \<longrightarrow>
       0 \<le> (1::real) / 60 \<and> (1::real) / 60 \<le> 1 \<and>
       - maxFallSpeed ?h \<le> verticalVelocity ?h \<and> verticalVelocity ?h \<le> jumpSpeed ?h"
    by (simp_all add: example_controller_fields)
  have n: "enabled ?n" "ghostObject ?n = Some example_ghost"
    "convexShape ?n = Some example_shape" "0 \<le> maxFallSpeed ?n" "0 \<le> jumpSpeed ?n"
    "isHovering ?n \<longrightarrow>
       0 \<le> (1::real) \<and> (1::real) \<le> 1 \<and>
       - maxFallSpeed ?n \<le> verticalVelocity ?n \<and> verticalVelocity ?n \<le> jumpSpeed ?n"
    by (simp_all add: example_controller_fields)
  from playerStep_hover_cleared [of "1 / 60" 5] obtain s1 where
    e: "playerStep ?w (1 / 60) ?h = Inr s1" and c: "\<not> isHovering s1"
    and v: "verticalVelocity s1 = 59 / 12"
    by auto
  from C5_velocity_clamp [OF h, of ?w] e
  have r: "- 55 \<le> verticalVelocity s1 \<and> verticalVelocity s1 \<le> 5"
    by (auto simp: example_controller_fields)
  from C5_velocity_clamp [OF n, of "const_world [] []"]
  have m: "\<exists>s'. playerStep (const_world [] []) 1 ?n = Inr s' \<and>
         - 55 \<le> verticalVelocity s' \<and> verticalVelocity s' \<le> 5"
    by (auto simp: example_controller_fields)
  from e c v r m show ?thesis
    by (simp add: example_controller_fields)
qed

section \<open>The throttle of the position written back to the avatar\<close>

lemma length2_nonneg: "0 \<le> length2 v"
  by (simp add: length2_def dot_def)

lemma vlength_nonneg: "0 \<le> vlength v"
  by (simp add: vlength_def length2_nonneg)

lemma length2_scaleR: "length2 (c *\<^sub>R v) = c\<^sup>2 * length2 v"
  by (simp add: length2_def dot_def scaleR_vec3_def power2_eq_square algebra_simps)

lemma vlength_scaleR: "vlength (c *\<^sub>R v) = \<bar>c\<bar> * vlength v"
  by (simp add: vlength_def length2_scaleR real_sqrt_mult)

lemma postSimulation_maxStepLength_nonneg:
  "0 \<le> stepDt s \<Longrightarrow> 0 \<le> postSimulation_maxStepLength s"
  by (simp add: postSimulation_maxStepLength_def Let_def)

lemma sqrt_25: "sqrt 25 = 5"
proof -
  have "sqrt 25 = sqrt (5\<^sup>2)" by simp
  also have "\<dots> = (5::real)" by (simp only: real_sqrt_abs abs_numeral)
  finally show ?thesis .
qed

text \<open>
  \<^verbatim>\<open>preSimulation\<close> records the avatar's position (with the rotated shape offset) as
  \<open>lastPosition\<close> and resets \<open>stepDt\<close> to 0; each \<^verbatim>\<open>playerStep(dt)\<close> of the enabled
  controller adds \<open>dt\<close> to \<open>stepDt\<close> and keeps \<open>lastPosition\<close>.
\<close>

lemma getNormalizedVector_returns: "\<exists>n. getNormalizedVector v = Inr n"
  using FLT_EPSILON_pos
  by (auto simp: getNormalizedVector_def btVector3_div_def Let_def)

lemma preSimulation_records:
  assumes "enabled s" and "dynamicsWorld s \<noteq> None" and "ghostObject s = Some g"
  shows "\<exists>s'. preSimulation quatRotate glmRotate avatar timeStep s = Inr s' \<and>
           lastPosition s' =
             avatarPosition avatar + glmRotate (avatarOrientation avatar) (shapeLocalOffset s) \<and>
           stepDt s' = 0 \<and> enabled s' \<and>
           ghostObject s' =
             Some (g\<lparr>origin := lastPosition s', rotation := avatarOrientation avatar\<rparr>)"
proof -
  obtain n where n: "getNormalizedVector (avatarVelocity avatar) = Inr n"
    using getNormalizedVector_returns by blast
  show ?thesis
    using assms n
    by (simp add: preSimulation_def setVelocityForTimeInterval_def Let_def canJump_def)
qed

lemma stepForward_loop_stepDt:
  "stepDt (fst (stepForward_loop world g sh n sl2 t)) = stepDt t"
  "lastPosition (fst (stepForward_loop world g sh n sl2 t)) = lastPosition t"
  "enabled (fst (stepForward_loop world g sh n sl2 t)) = enabled t"
   by (induction n arbitrary: sl2 t; simp add: Let_def stepForward_hit_def)+

lemma phases_stepDt:
  "scanDown world s = Inr s' \<Longrightarrow>
     stepDt s' = stepDt s \<and> lastPosition s' = lastPosition s \<and> enabled s' = enabled s"
  "stepUp world s = Inr s' \<Longrightarrow>
     stepDt s' = stepDt s \<and> lastPosition s' = lastPosition s \<and> enabled s' = enabled s"
  "stepForward world movement s = Inr r \<Longrightarrow>
     stepDt (fst r) = stepDt s \<and> lastPosition (fst r) = lastPosition s \<and>
     enabled (fst r) = enabled s"
  "stepDown world dt s = Inr r \<Longrightarrow>
     stepDt (fst r) = stepDt s \<and> lastPosition (fst r) = lastPosition s \<and>
     enabled (fst r) = enabled s"
     apply (auto simp: scanDown_def Let_def split: option.splits if_splits)[1]
    apply (auto simp: stepUp_def Let_def split: option.splits if_splits)[1]
   apply (auto simp: stepForward_def Let_def stepForward_loop_stepDt
      simp del: stepForward_loop.simps split: option.splits if_splits)[1]
  apply (auto simp: stepDown_def Let_def split: option.splits if_splits)[1]
  done

lemma updateFallVelocity_stepDt:
  "stepDt (updateFallVelocity dt s) = stepDt s"
  "lastPosition (updateFallVelocity dt s) = lastPosition s"
  "enabled (updateFallVelocity dt s) = enabled s"
  by (auto simp: updateFallVelocity_def Let_def)

lemma playerStep_stepDt:
  assumes "enabled s" and "playerStep world dt s = Inr s'"
  shows "stepDt s' = stepDt s + dt \<and> lastPosition s' = lastPosition s \<and> enabled s'"
proof -
  from assms obtain s3 s4 r6 r7 g where
    a: "scanDown world (updateFallVelocity dt s) = Inr s3"
    and b: "stepUp world s3 = Inr s4"
    and c: "stepForward world
              ((if dt < velocityTimeInterval s4 then dt else velocityTimeInterval s4)
                 *\<^sub>R walkDirection s4)
              (s4\<lparr>velocityTimeInterval := velocityTimeInterval s4 - dt,
                  stepDt := stepDt s4 + dt\<rparr>) = Inr r6"
    and d: "stepDown world dt (fst r6) = Inr r7"
    and e: "s' = (fst r7)\<lparr>ghostObject := Some g\<rparr>"
    by (auto simp: playerStep_def Let_def simp del: stepForward_loop.simps
        split: option.splits sum.splits)
  from phases_stepDt(1) [OF a] phases_stepDt(2) [OF b] phases_stepDt(3) [OF c]
    phases_stepDt(4) [OF d] assms(1)
  show ?thesis
    by (simp add: e updateFallVelocity_stepDt)
qed

text \<open>
  Claim C10, as stated, fails when the accumulated \<open>stepDt\<close> is negative (a \<^verbatim>\<open>playerStep\<close>
  with a negative \<open>dt\<close>): the bound \<open>max(5, 2|v|) \<cdot> stepDt\<close> is then negative, every
  displacement exceeds it, and the written position is the recorded one plus the
  displacement scaled by a negative factor. With \<open>stepDt = -1\<close>, no velocity, and the
  ghost displaced by \<open>(1, 0, 0)\<close> from the recorded position, the bound is \<open>-5\<close> and the
  position written is at distance 5 from the recorded one, on the opposite side.
\<close>

theorem C10_negative_stepDt_counterexample:
  "enabled (example_controller\<lparr>stepDt := - 1,
      ghostObject := Some (example_ghost\<lparr>origin := btVector3 1 (9 / 10) 0\<rparr>)\<rparr>) \<and>
   lastPosition (example_controller\<lparr>stepDt := - 1,
      ghostObject := Some (example_ghost\<lparr>origin := btVector3 1 (9 / 10) 0\<rparr>)\<rparr>)
     = btVector3 0 (9 / 10) 0 \<and>
   postSimulation_maxStepLength (example_controller\<lparr>stepDt := - 1,
      ghostObject := Some (example_ghost\<lparr>origin := btVector3 1 (9 / 10) 0\<rparr>)\<rparr>) = - 5 \<and>
   avatarPosition (postSimulation identity_rotation
     (example_controller\<lparr>stepDt := - 1,
        ghostObject := Some (example_ghost\<lparr>origin := btVector3 1 (9 / 10) 0\<rparr>)\<rparr>)
     example_avatar) = btVector3 (- 5) (9 / 10) 0 \<and>
   vlength (btVector3 (- 5) (9 / 10) 0 - btVector3 0 (9 / 10) 0) = 5"
proof -
  let ?g = "example_ghost\<lparr>origin := btVector3 1 (9 / 10) 0\<rparr>"
  let ?s = "example_controller\<lparr>stepDt := - 1, ghostObject := Some ?g\<rparr>"
  have m: "postSimulation_maxStepLength ?s = - 5"
    by (simp add: postSimulation_maxStepLength_def Let_def example_controller_fields
        vlength_def length2_def dot_def plus_vec3_def scaleR_vec3_def)
  have l: "vlength (btVector3 1 (9 / 10) 0 - btVector3 0 (9 / 10) 0) = 1"
    by (simp add: vlength_def length2_def dot_def minus_vec3_def)
  have p: "postSimulation_position ?s ?g = btVector3 (- 5) (9 / 10) 0"
    using m l
    by (simp add: postSimulation_position_def Let_def example_controller_fields)
      (simp add: minus_vec3_def plus_vec3_def scaleR_vec3_def)
  have d: "vlength (btVector3 (- 5) (9 / 10) 0 - btVector3 0 (9 / 10) 0) = 5"
    by (simp add: vlength_def length2_def dot_def minus_vec3_def sqrt_25)
  have a: "avatarPosition (postSimulation identity_rotation ?s example_avatar)
      = btVector3 (- 5) (9 / 10) 0"
    using p
    by (simp add: postSimulation_def example_controller_fields identity_rotation_def
        minus_vec3_def)
  show ?thesis
    using m a d by (simp add: example_controller_fields)
qed

text \<open>
  Claim C10, amended. For every \<^verbatim>\<open>postSimulation\<close> call on an enabled controller with a
  ghost object and with \<open>stepDt \<ge> 0\<close>: the position written to the avatar (before the
  rotated shape offset is subtracted) lies within distance
  \<open>max(5, 2 |walkDirection + verticalVelocity \<cdot> currentUp|) \<cdot> stepDt\<close> of \<open>lastPosition\<close>;
  when the ghost's displacement from \<open>lastPosition\<close> exceeds that bound, the position is
  \<open>lastPosition\<close> plus the displacement rescaled to exactly that bound; otherwise it is the
  ghost's position.
\<close>

theorem C10_postSimulation_throttle:
  assumes "enabled s" and "ghostObject s = Some g" and "0 \<le> stepDt s"
  shows "postSimulation_maxStepLength s =
           max 5 (2 * vlength (walkDirection s + verticalVelocity s *\<^sub>R currentUp s)) * stepDt s \<and>
         avatarPosition (postSimulation glmRotate s avatar) =
           postSimulation_position s g - glmRotate (rotation g) (shapeLocalOffset s) \<and>
         vlength (postSimulation_position s g - lastPosition s)
           \<le> postSimulation_maxStepLength s \<and>
         (vlength (origin g - lastPosition s) > postSimulation_maxStepLength s \<longrightarrow>
            postSimulation_position s g =
              lastPosition s
                + (postSimulation_maxStepLength s / vlength (origin g - lastPosition s))
                    *\<^sub>R (origin g - lastPosition s) \<and>
            vlength (postSimulation_position s g - lastPosition s)
              = postSimulation_maxStepLength s) \<and>
         (vlength (origin g - lastPosition s) \<le> postSimulation_maxStepLength s \<longrightarrow>
            postSimulation_position s g = origin g)"
proof -
  let ?m = "postSimulation_maxStepLength s"
  let ?f = "origin g - lastPosition s"
  have m0: "0 \<le> ?m" using assms(3) by (rule postSimulation_maxStepLength_nonneg)
  have big: "vlength (postSimulation_position s g - lastPosition s) = ?m"
    "postSimulation_position s g = lastPosition s + (?m / vlength ?f) *\<^sub>R ?f"
    if "vlength ?f > ?m"
  proof -
    show p: "postSimulation_position s g = lastPosition s + (?m / vlength ?f) *\<^sub>R ?f"
      using that by (simp add: postSimulation_position_def Let_def)
    have pos: "0 < vlength ?f" using that m0 by linarith
    have "vlength (postSimulation_position s g - lastPosition s)
        = \<bar>?m / vlength ?f\<bar> * vlength ?f"
      by (simp add: p vlength_scaleR)
    also have "\<dots> = ?m" using pos m0 by simp
    finally show "vlength (postSimulation_position s g - lastPosition s) = ?m" .
  qed
  have small: "postSimulation_position s g = origin g" if "vlength ?f \<le> ?m"
    using that by (simp add: postSimulation_position_def Let_def)
  have bound: "vlength (postSimulation_position s g - lastPosition s) \<le> ?m"
  proof (cases "vlength ?f > ?m")
    case True
    then show ?thesis by (simp add: big(1))
  next
    case False
    then show ?thesis by (simp add: small)
  qed
  have av: "avatarPosition (postSimulation glmRotate s avatar) =
           postSimulation_position s g - glmRotate (rotation g) (shapeLocalOffset s)"
    using assms(1,2) by (simp add: postSimulation_def)
  have md: "?m = max 5 (2 * vlength (walkDirection s + verticalVelocity s *\<^sub>R currentUp s))
                  * stepDt s"
    by (simp add: postSimulation_maxStepLength_def Let_def)
  from md av bound big small show ?thesis by blast
qed

theorem C10_postSimulation_throttle_witness:
  "enabled (example_controller\<lparr>stepDt := 1 / 60,
      ghostObject := Some (example_ghost\<lparr>origin := btVector3 3 (49 / 10) 0\<rparr>)\<rparr>) \<and>
   0 \<le> stepDt (example_controller\<lparr>stepDt := 1 / 60,
      ghostObject := Some (example_ghost\<lparr>origin := btVector3 3 (49 / 10) 0\<rparr>)\<rparr>) \<and>
   postSimulation_maxStepLength (example_controller\<lparr>stepDt := 1 / 60,
      ghostObject := Some (example_ghost\<lparr>origin := btVector3 3 (49 / 10) 0\<rparr>)\<rparr>) = 1 / 12 \<and>
   vlength (origin (example_ghost\<lparr>origin := btVector3 3 (49 / 10) 0\<rparr>)
            - btVector3 0 (9 / 10) 0) = 5 \<and>
   postSimulation_position (example_controller\<lparr>stepDt := 1 / 60,
        ghostObject := Some (example_ghost\<lparr>origin := btVector3 3 (49 / 10) 0\<rparr>)\<rparr>)
     (example_ghost\<lparr>origin := btVector3 3 (49 / 10) 0\<rparr>) = btVector3 (1 / 20) (29 / 30) 0 \<and>
   vlength (btVector3 (1 / 20) (29 / 30) 0 - btVector3 0 (9 / 10) 0) = 1 / 12"
proof -
  let ?g = "example_ghost\<lparr>origin := btVector3 3 (49 / 10) 0\<rparr>"
  let ?s = "example_controller\<lparr>stepDt := 1 / 60, ghostObject := Some ?g\<rparr>"
  have h: "enabled ?s" "ghostObject ?s = Some ?g" "0 \<le> stepDt ?s"
    by (simp_all add: example_controller_fields)
  have m: "postSimulation_maxStepLength ?s = 1 / 12"
    by (simp add: postSimulation_maxStepLength_def Let_def example_controller_fields
        vlength_def length2_def dot_def plus_vec3_def scaleR_vec3_def)
  have f: "origin ?g - lastPosition ?s = btVector3 3 4 0"
    by (simp add: example_controller_fields minus_vec3_def)
  have l: "lastPosition ?s = btVector3 0 (9 / 10) 0"
    by (simp add: example_controller_fields)
  have fv: "vlength (origin ?g - lastPosition ?s) = 5"
    unfolding f by (rule vlength_3_4_0)
  have gt: "vlength (origin ?g - lastPosition ?s) > postSimulation_maxStepLength ?s"
    unfolding fv m by simp
  from C10_postSimulation_throttle [OF h, of identity_rotation example_avatar] gt
  have p: "postSimulation_position ?s ?g =
      lastPosition ?s + (postSimulation_maxStepLength ?s / vlength (origin ?g - lastPosition ?s))
         *\<^sub>R (origin ?g - lastPosition ?s)"
    and d: "vlength (postSimulation_position ?s ?g - lastPosition ?s)
              = postSimulation_maxStepLength ?s"
    by blast+
  have p': "postSimulation_position ?s ?g = btVector3 (1 / 20) (29 / 30) 0"
    unfolding p
    by (simp add: m example_controller_fields minus_vec3_def plus_vec3_def scaleR_vec3_def
        vlength_3_4_0)
  from d have d': "vlength (btVector3 (1 / 20) (29 / 30) 0 - btVector3 0 (9 / 10) 0) = 1 / 12"
    by (simp add: p' m l)
  have f': "vlength (origin ?g - btVector3 0 (9 / 10) 0) = 5"
    using fv by (simp add: l)
  from h m p' d' f' show ?thesis by simp
qed


end
